theory Spec2Isabelle
  imports Main "HOL-Library.Word" "HOL-Library.Sublist"
begin

section \<open>Email-link sign-in: the data model\<close>

text \<open>
  The engine lives in \<^verbatim>\<open>auth/email_link/link_verify.go\<close> (SignIn, signIn, verifySignIn,
  increaseWrongConfirmationCodeAttemptsCount, finishAuthProcess, resetLoginSession), in the
  status poll (Status and its own resetLoginSession) and in the DDL of the three tables.
  Go's \<^verbatim>\<open>int64\<close> and SQL's \<^verbatim>\<open>BIGINT\<close> are 64-bit words read as two's complement;
  Go's \<^verbatim>\<open>+\<close> wraps, SQL's \<^verbatim>\<open>+\<close> and \<^verbatim>\<open>-\<close> raise "out of range" instead.
  An instant is a number of nanoseconds, a duration likewise; \<^verbatim>\<open>Before\<close> and
  \<^verbatim>\<open>After\<close> are the strict orders. A nullable column or a Go pointer is an option.
\<close>

type_synonym int64 = "64 word"
type_synonym instant = int
type_synonym duration = int

subsection \<open>Errors, panics and results\<close>

text \<open>
  The sentinel errors of the package, the storage library's \<^verbatim>\<open>ErrNotFound\<close>, any other
  failure of a collaborator (identified by its text), \<^verbatim>\<open>errors.Wrapf\<close> around a cause
  (the format string is kept, its arguments are not rendered) and a
  \<^verbatim>\<open>multierror.Error\<close> holding its list of causes.
\<close>

datatype err =
    ErrNoConfirmationRequired
  | ErrNoPendingLoginSession
  | ErrStatusNotVerified
  | ErrConfirmationCodeWrong
  | ErrConfirmationCodeAttemptsExceeded
  | storage_ErrNotFound
  | Failure string
  | Wrapf err string
  | MultiError "err list"

datatype panic = NilPointerDereference | TypeAssertionFailed

text \<open>A Go call returns a value, returns a non-nil error, or panics.\<close>

datatype 'a result = Ok 'a | Err err | Panic panic

text \<open>\<^verbatim>\<open>errors.Is\<close>: the target is the error itself, or is found below a wrapper or in
  one of the causes of a multi-error.\<close>

fun errors_Is :: "err \<Rightarrow> err \<Rightarrow> bool" where
  "errors_Is (Wrapf e m) t = (Wrapf e m = t \<or> errors_Is e t)"
| "errors_Is (MultiError es) t = (MultiError es = t \<or> list_ex (\<lambda>e. errors_Is e t) es)"
| "errors_Is e t = (e = t)"

text \<open>\<^verbatim>\<open>(*multierror.Error).ErrorOrNil\<close>: nil when nothing was appended. A nil
  \<^verbatim>\<open>*multierror.Error\<close> and an empty one behave alike under \<^verbatim>\<open>Append\<close>, so the
  accumulator \<^verbatim>\<open>mErr\<close> is the list of the errors appended so far; \<^verbatim>\<open>Append\<close> skips
  nil arguments.\<close>

definition ErrorOrNil :: "err list \<Rightarrow> unit result" where
  "ErrorOrNil es = (if es = [] then Ok () else Err (MultiError es))"

text \<open>\<^verbatim>\<open>errors.Wrapf(x, format)\<close> applied to the outcome of a call that returns only an
  error: nil stays nil (and adds nothing to a multi-error).\<close>

fun wrapped :: "unit result \<Rightarrow> string \<Rightarrow> err list" where
  "wrapped (Err e) m = [Wrapf e m]"
| "wrapped _ m = []"

subsection \<open>Metadata\<close>

text \<open>\<^verbatim>\<open>users.JSON\<close> is \<^verbatim>\<open>map[string]any\<close>. The code only asks whether a value is a
  string; any other value is kept as its encoded text.\<close>

datatype jvalue = JString string | JOther string

type_synonym JSON = "string \<rightharpoonup> jvalue"

subsection \<open>The in-memory structs\<close>

record loginID =
  id_Email :: string
  id_DeviceUniqueID :: string

record emailLinkSignIn =
  CreatedAt :: "instant option"
  TokenIssuedAt :: "instant option"
  BlockedUntil :: "instant option"
  EmailConfirmedAt :: "instant option"
  Metadata :: "JSON option"
  UserID :: "string option"
  PhoneNumberToEmailMigrationUserID :: "string option"
  Email :: string
  DeviceUniqueID :: string
  ConfirmationCode :: string
  OTP :: string
  IssuedTokenSeq :: int64
  PreviouslyIssuedTokenSeq :: int64
  ConfirmationCodeWrongAttemptsCount :: int64

record loginFlowToken =
  Subject :: string
  tok_DeviceUniqueID :: string
  OldEmail :: string
  NotifyEmail :: string
  ClientIP :: string
  tok_ConfirmationCode :: string
  LoginSessionNumber :: int64

record Tokens =
  RefreshToken :: string
  AccessToken :: string

subsection \<open>The tables\<close>

text \<open>
  A row of \<^verbatim>\<open>email_link_sign_ins\<close> without its primary key \<^verbatim>\<open>(email, device_unique_id)\<close>,
  which is the key of the table below. The column \<^verbatim>\<open>otp\<close> is the one the status poll's
  statements name. \<^verbatim>\<open>sign_ins_per_ip\<close> maps its primary key
  \<^verbatim>\<open>(login_session_number, ip)\<close> to \<^verbatim>\<open>login_attempts\<close>.
\<close>

record sign_in_row =
  created_at :: instant
  token_issued_at :: "instant option"
  blocked_until :: "instant option"
  email_confirmed_at :: "instant option"
  issued_token_seq :: int64
  previously_issued_token_seq :: int64
  confirmation_code_wrong_attempts_count :: int64
  confirmation_code :: "string option"
  otp :: "string option"
  user_id :: "string option"
  phone_number_to_email_migration_user_id :: "string option"

record db =
  email_link_sign_ins :: "(string \<times> string) \<rightharpoonup> sign_in_row"
  account_metadata :: "string \<rightharpoonup> JSON"
  sign_ins_per_ip :: "(int64 \<times> string) \<rightharpoonup> int64"

definition MaxInt64 :: int where
  "MaxInt64 = 9223372036854775807"

definition MinInt64 :: int where
  "MinInt64 = - 9223372036854775808"

subsection \<open>The client and what a call observes\<close>

text \<open>
  The receiver \<^verbatim>\<open>c *client\<close>: the configuration values the code reads, the constants
  of the auth library and of the package that link_verify.go uses without declaring, and the
  collaborators whose bodies lie in other files of the package or in libraries. A collaborator
  that may write takes the database and returns it.
\<close>

record client =
  MaxWrongAttemptsCount :: int64
  BlockDuration :: duration
  EmailValidation_JwtSecret :: string
  LoginSession_JwtSecret :: string
  IceIDClaim :: string
  RegisteredWithProviderClaim :: string
  FirebaseIDClaim :: string
  ProviderFirebase :: string
  iceIDPrefix :: string
  mergo_Merge :: "JSON \<Rightarrow> JSON \<Rightarrow> JSON result"
  parseJwtToken :: "string \<Rightarrow> string \<Rightarrow> loginFlowToken result"
  getEmailLinkSignInByPk :: "db \<Rightarrow> loginID \<Rightarrow> string \<Rightarrow> emailLinkSignIn result"
  getConfirmedEmailLinkSignIn :: "db \<Rightarrow> loginID \<Rightarrow> string \<Rightarrow> emailLinkSignIn result"
  generateTokens :: "instant option \<Rightarrow> emailLinkSignIn \<Rightarrow> int64 \<Rightarrow> Tokens result"
  handleEmailModification ::
    "db \<Rightarrow> emailLinkSignIn \<Rightarrow> string \<Rightarrow> string \<Rightarrow> string \<Rightarrow> unit result \<times> emailLinkSignIn \<times> db"
  resetEmailModification :: "db \<Rightarrow> string \<Rightarrow> string \<Rightarrow> unit result \<times> db"
  resetFirebaseEmailModification :: "db \<Rightarrow> JSON option \<Rightarrow> string \<Rightarrow> unit result \<times> db"

text \<open>
  What one call observes from outside: the readings of \<^verbatim>\<open>time.Now()\<close> (in SignIn, in
  verifySignIn and in increaseWrongConfirmationCodeAttemptsCount) and, for each storage
  statement, whether the storage layer fails for a reason of its own (connection, timeout),
  in which case nothing is written.
\<close>

record runtime =
  signin_now :: instant
  verify_now :: instant
  block_now :: instant
  increase_fault :: "string option"
  finish_fault :: "string option"
  reset_fault :: "string option"

section \<open>Confirmation Verifier\<close>

text \<open>
  \<^verbatim>\<open>UPDATE email_link_sign_ins SET confirmation_code_wrong_attempts_count = ... + 1
  [, blocked_until = $3] WHERE email = $1 AND device_unique_id = $2\<close> through
  \<^verbatim>\<open>storage.Exec\<close>, which reports zero affected rows as \<^verbatim>\<open>ErrNotFound\<close>.
\<close>

definition increaseWrongConfirmationCodeAttemptsCount ::
  "client \<Rightarrow> runtime \<Rightarrow> db \<Rightarrow> loginID \<Rightarrow> bool \<Rightarrow> unit result \<times> db" where
  "increaseWrongConfirmationCodeAttemptsCount c rt s lid shouldBeBlocked =
     (let msg = ''can't update email link sign ins for the user with pk:%#v'';
          pk = (id_Email lid, id_DeviceUniqueID lid) in
      case increase_fault rt of
        Some f \<Rightarrow> (Err (Wrapf (Failure f) msg), s)
      | None \<Rightarrow>
         (case email_link_sign_ins s pk of
            None \<Rightarrow> (Err (Wrapf storage_ErrNotFound msg), s)
          | Some r \<Rightarrow>
             if sint (confirmation_code_wrong_attempts_count r) = MaxInt64
             then (Err (Wrapf (Failure ''bigint out of range'') msg), s)
             else
               (Ok (),
                s\<lparr>email_link_sign_ins := (email_link_sign_ins s)(pk \<mapsto>
                   r\<lparr>confirmation_code_wrong_attempts_count :=
                        confirmation_code_wrong_attempts_count r + 1,
                     blocked_until :=
                        (if shouldBeBlocked then Some (block_now rt + BlockDuration c)
                         else blocked_until r)\<rparr>)\<rparr>)))"

text \<open>
  Line 93 of verifySignIn: \<^verbatim>\<open>els.BlockedUntil.Before(blockEndTime) &&
  els.BlockedUntil.After(*els.CreatedAt.Time)\<close>. It is evaluated before the nil test of
  line 94, so a nil \<^verbatim>\<open>BlockedUntil\<close> (or, once \<^verbatim>\<open>Before\<close> holds, a nil
  \<^verbatim>\<open>CreatedAt\<close>) is dereferenced there.
\<close>

definition blockTimeFitsNow :: "emailLinkSignIn \<Rightarrow> instant \<Rightarrow> bool result" where
  "blockTimeFitsNow els blockEndTime =
     (case BlockedUntil els of
        None \<Rightarrow> Panic NilPointerDereference
      | Some bu \<Rightarrow>
          if bu < blockEndTime
          then (case CreatedAt els of
                  None \<Rightarrow> Panic NilPointerDereference
                | Some cr \<Rightarrow> Ok (cr < bu))
          else Ok False)"

text \<open>Lines 102 to 115 of verifySignIn, given \<^verbatim>\<open>shouldBeBlocked\<close> and \<^verbatim>\<open>mErr\<close> as the
  first part left them.\<close>

definition verifySignIn_compare ::
  "client \<Rightarrow> runtime \<Rightarrow> db \<Rightarrow> emailLinkSignIn \<Rightarrow> loginID \<Rightarrow> string \<Rightarrow> bool \<Rightarrow> err list
     \<Rightarrow> unit result \<times> db" where
  "verifySignIn_compare c rt s els lid confirmationCode shouldBeBlocked mErr =
     (if ConfirmationCode els \<noteq> confirmationCode \<or> shouldBeBlocked
      then
        (let shouldBeBlocked' =
               (if MaxWrongAttemptsCount c \<le>s ConfirmationCodeWrongAttemptsCount els + 1
                then True else shouldBeBlocked) in
         case increaseWrongConfirmationCodeAttemptsCount c rt s lid shouldBeBlocked' of
           (Panic p, s') \<Rightarrow> (Panic p, s')
         | (iErr, s') \<Rightarrow>
             (ErrorOrNil
                (mErr
                 @ wrapped iErr
                     ''can't increment wrong confirmation code attempts count for email:%v,deviceUniqueID:%v''
                 @ [Wrapf ErrConfirmationCodeWrong ''wrong confirmation code:%v'']),
              s'))
      else (Ok (), s))"

definition verifySignIn ::
  "client \<Rightarrow> runtime \<Rightarrow> db \<Rightarrow> emailLinkSignIn \<Rightarrow> loginID \<Rightarrow> string \<Rightarrow> unit result \<times> db" where
  "verifySignIn c rt s els lid confirmationCode =
     (let exceeded = Wrapf ErrConfirmationCodeAttemptsExceeded
                       ''confirmation code wrong attempts count exceeded for id:%#v'' in
      if MaxWrongAttemptsCount c \<le>s ConfirmationCodeWrongAttemptsCount els
      then
        (case blockTimeFitsNow els (verify_now rt + BlockDuration c) of
           Panic p \<Rightarrow> (Panic p, s)
         | Err e \<Rightarrow> (Err e, s)
         | Ok fits \<Rightarrow>
             (let shouldBeBlocked = (BlockedUntil els = None \<or> \<not> fits) in
              if \<not> shouldBeBlocked then (Err exceeded, s)
              else verifySignIn_compare c rt s els lid confirmationCode shouldBeBlocked [exceeded]))
      else verifySignIn_compare c rt s els lid confirmationCode False [])"

section \<open>Session Finalizer\<close>

text \<open>
  Lines 146 to 157 of finishAuthProcess: the identity claim, and the registered-with-provider
  claim when the stored metadata lacks it and carries an external identity that is not a
  native one. \<^verbatim>\<open>firebaseID.(string)\<close> is a forced type assertion, evaluated first.
\<close>

definition mdToUpdate_of :: "client \<Rightarrow> string \<Rightarrow> JSON \<Rightarrow> JSON result" where
  "mdToUpdate_of c userID md =
     (let mdToUpdate = [IceIDClaim c \<mapsto> JString userID] in
      if md (RegisteredWithProviderClaim c) = None
      then (case md (FirebaseIDClaim c) of
              None \<Rightarrow> Ok mdToUpdate
            | Some (JOther v) \<Rightarrow> Panic TypeAssertionFailed
            | Some (JString firebaseID) \<Rightarrow>
                if \<not> prefix (iceIDPrefix c) firebaseID \<and> \<not> prefix (iceIDPrefix c) userID
                then Ok (mdToUpdate(RegisteredWithProviderClaim c \<mapsto> JString (ProviderFirebase c)))
                else Ok mdToUpdate)
      else Ok mdToUpdate)"

text \<open>
  The statement of finishAuthProcess, run through \<^verbatim>\<open>storage.ExecOne\<close> (no returned row is
  \<^verbatim>\<open>ErrNotFound\<close>). The \<^verbatim>\<open>metadata_update\<close> part upserts \<^verbatim>\<open>account_metadata\<close>; its
  \<^verbatim>\<open>WHERE\<close> only skips a write that would store the value already there, and as a
  data-modifying \<^verbatim>\<open>WITH\<close> part it runs whether or not the \<^verbatim>\<open>UPDATE\<close> matches a row.
  In the \<^verbatim>\<open>SET\<close> list every right-hand side reads the row as it was before the statement.
  \<^verbatim>\<open>issued_token_seq\<close> is \<^verbatim>\<open>NOT NULL\<close>, so \<^verbatim>\<open>COALESCE(issued_token_seq, 0)\<close> is the
  column. A statement that raises writes nothing.
\<close>

definition finishAuthProcess ::
  "client \<Rightarrow> runtime \<Rightarrow> db \<Rightarrow> instant \<Rightarrow> loginID \<Rightarrow> string \<Rightarrow> int64 \<Rightarrow> bool \<Rightarrow> JSON option
     \<Rightarrow> int64 result \<times> db" where
  "finishAuthProcess c rt s now lid userID issuedTokenSeq emailConfirmed md0 =
     (let emailConfirmedAt = (if emailConfirmed then Some now else None);
          md = (case md0 of None \<Rightarrow> Map.empty | Some m \<Rightarrow> m);
          pk = (id_Email lid, id_DeviceUniqueID lid);
          raceMsg = ''[finishAuthProcess] No records were updated to finish: race condition'';
          failMsg = ''failed to insert generated token data for:%#v'' in
      case mdToUpdate_of c userID md of
        Panic p \<Rightarrow> (Panic p, s)
      | Err e \<Rightarrow> (Err e, s)
      | Ok mdToUpdate \<Rightarrow>
         (case mergo_Merge c mdToUpdate md of
            Panic p \<Rightarrow> (Panic p, s)
          | Err e \<Rightarrow> (Err (Wrapf e ''failed to merge %#v and %v:%v''), s)
          | Ok merged \<Rightarrow>
             (case finish_fault rt of
                Some f \<Rightarrow> (Err (Wrapf (Failure f) failMsg), s)
              | None \<Rightarrow>
                 (let s1 = s\<lparr>account_metadata := (account_metadata s)(userID \<mapsto> merged)\<rparr> in
                  case email_link_sign_ins s pk of
                    None \<Rightarrow> (Err (Wrapf ErrNoConfirmationRequired raceMsg), s1)
                  | Some r \<Rightarrow>
                      if issued_token_seq r \<noteq> issuedTokenSeq
                      then (Err (Wrapf ErrNoConfirmationRequired raceMsg), s1)
                      else if sint (issued_token_seq r) = MaxInt64
                      then (Err (Wrapf (Failure ''bigint out of range'') failMsg), s)
                      else
                        (Ok (issued_token_seq r + 1),
                         s1\<lparr>email_link_sign_ins := (email_link_sign_ins s)(pk \<mapsto>
                            r\<lparr>token_issued_at := Some now,
                              user_id := Some userID,
                              email_confirmed_at := emailConfirmedAt,
                              phone_number_to_email_migration_user_id := None,
                              issued_token_seq := issued_token_seq r + 1,
                              previously_issued_token_seq := issued_token_seq r + 1\<rparr>)\<rparr>)))))"

section \<open>Reset step and Rate Limiter refund\<close>

text \<open>
  \<^verbatim>\<open>UPDATE sign_ins_per_ip SET login_attempts = GREATEST(login_attempts - 1, 0)
  WHERE ip = $6 AND login_session_number = $7\<close>, under the table's constraint
  \<^verbatim>\<open>CHECK (login_attempts <= 10)\<close>. None: the statement raises (the subtraction leaves
  \<^verbatim>\<open>BIGINT\<close>, or the new value violates the constraint).
\<close>

definition sql_GREATEST :: "int64 \<Rightarrow> int64 \<Rightarrow> int64" where
  "sql_GREATEST a b = (if a <s b then b else a)"

definition decrement_ip_login_attempts :: "db \<Rightarrow> string \<Rightarrow> int64 \<Rightarrow> db option" where
  "decrement_ip_login_attempts s ip loginSessionNumber =
     (case sign_ins_per_ip s (loginSessionNumber, ip) of
        None \<Rightarrow> Some s
      | Some a \<Rightarrow>
          if sint a = MinInt64 then None
          else if 10 <s sql_GREATEST (a - 1) 0 then None
          else Some (s\<lparr>sign_ins_per_ip :=
                        (sign_ins_per_ip s)((loginSessionNumber, ip) \<mapsto> sql_GREATEST (a - 1) 0)\<rparr>))"

text \<open>resetLoginSession of link_verify.go. \<^verbatim>\<open>els.IssuedTokenSeq + 1\<close> is Go's wrapping
  addition; a null \<^verbatim>\<open>confirmation_code\<close> equals no parameter.\<close>

definition resetLoginSession ::
  "client \<Rightarrow> runtime \<Rightarrow> db \<Rightarrow> loginID \<Rightarrow> emailLinkSignIn \<Rightarrow> string \<Rightarrow> string \<Rightarrow> int64
     \<Rightarrow> unit result \<times> db" where
  "resetLoginSession c rt s lid els prevConfirmationCode clientIP loginSessionNumber =
     (let msg = ''failed to reset login session by id:%#v and confirmationCode:%v'';
          pk = (id_Email lid, id_DeviceUniqueID lid) in
      case reset_fault rt of
        Some f \<Rightarrow> (Err (Wrapf (Failure f) msg), s)
      | None \<Rightarrow>
         (case (if clientIP \<noteq> [] \<and> 0 <s loginSessionNumber
                then decrement_ip_login_attempts s clientIP loginSessionNumber
                else Some s) of
            None \<Rightarrow> (Err (Wrapf (Failure ''statement raised'') msg), s)
          | Some s1 \<Rightarrow>
             (case email_link_sign_ins s pk of
                None \<Rightarrow> (Err (Wrapf storage_ErrNotFound msg), s1)
              | Some r \<Rightarrow>
                  if confirmation_code r = Some prevConfirmationCode
                     \<and> issued_token_seq r = IssuedTokenSeq els + 1
                  then (Ok (),
                        s1\<lparr>email_link_sign_ins := (email_link_sign_ins s)(pk \<mapsto>
                            r\<lparr>confirmation_code := UserID els\<rparr>)\<rparr>)
                  else (Err (Wrapf storage_ErrNotFound msg), s1))))"

text \<open>resetLoginSession of the status poll: it also requires \<^verbatim>\<open>otp = $4\<close>, and the
  sequence number as read.\<close>

definition resetLoginSession_status ::
  "client \<Rightarrow> runtime \<Rightarrow> db \<Rightarrow> loginID \<Rightarrow> emailLinkSignIn \<Rightarrow> string \<Rightarrow> unit result \<times> db" where
  "resetLoginSession_status c rt s lid els prevConfirmationCode =
     (let msg = ''failed to reset login session by id:%#v and confirmationCode:%v'';
          pk = (id_Email lid, id_DeviceUniqueID lid) in
      case reset_fault rt of
        Some f \<Rightarrow> (Err (Wrapf (Failure f) msg), s)
      | None \<Rightarrow>
         (case email_link_sign_ins s pk of
            None \<Rightarrow> (Err (Wrapf storage_ErrNotFound msg), s)
          | Some r \<Rightarrow>
              if otp r = Some (OTP els)
                 \<and> confirmation_code r = Some prevConfirmationCode
                 \<and> issued_token_seq r = IssuedTokenSeq els
              then (Ok (),
                    s\<lparr>email_link_sign_ins := (email_link_sign_ins s)(pk \<mapsto>
                        r\<lparr>confirmation_code := UserID els\<rparr>)\<rparr>)
              else (Err (Wrapf storage_ErrNotFound msg), s)))"

section \<open>The coordinator: signIn, SignIn and Status\<close>

text \<open>\<^verbatim>\<open>return v, err\<close> where \<^verbatim>\<open>err\<close> comes from \<^verbatim>\<open>ErrorOrNil\<close>.\<close>

fun returning :: "'a \<Rightarrow> unit result \<Rightarrow> 'a result" where
  "returning v (Ok u) = Ok v"
| "returning v (Err e) = Err e"
| "returning v (Panic p) = Panic p"

text \<open>
  Lines 62 to 68 of signIn: the email-modification step, taken when the flow token carries an
  old email or the record a migration marker. The collaborator receives the pointer
  \<^verbatim>\<open>els\<close>, so it hands the struct back. The result is \<^verbatim>\<open>emailConfirmed\<close>.
\<close>

definition signIn_modify ::
  "client \<Rightarrow> db \<Rightarrow> emailLinkSignIn \<Rightarrow> loginID \<Rightarrow> string \<Rightarrow> string
     \<Rightarrow> bool result \<times> emailLinkSignIn \<times> db" where
  "signIn_modify c s els lid oldEmail notifyEmail =
     (if oldEmail \<noteq> []
         \<or> (PhoneNumberToEmailMigrationUserID els \<noteq> None
            \<and> PhoneNumberToEmailMigrationUserID els \<noteq> Some [])
      then
        (case handleEmailModification c s els (id_Email lid) oldEmail notifyEmail of
           (Panic p, els1, s1) \<Rightarrow> (Panic p, els1, s1)
         | (Err e, els1, s1) \<Rightarrow>
             (Err (Wrapf e ''failed to handle email modification:%v''), els1, s1)
         | (Ok u, els1, s1) \<Rightarrow> (Ok (oldEmail \<noteq> []), els1\<lparr>Email := id_Email lid\<rparr>, s1))
      else (Ok False, els, s))"

text \<open>
  Lines 69 to 85 of signIn: \<^verbatim>\<open>*els.UserID\<close> is dereferenced to build the arguments of
  finishAuthProcess; when finalize fails and there is an old email, the two reversions run
  in argument order and their errors, when not nil, precede the finalize error.
\<close>

definition signIn_finish ::
  "client \<Rightarrow> runtime \<Rightarrow> db \<Rightarrow> instant \<Rightarrow> emailLinkSignIn \<Rightarrow> loginID \<Rightarrow> string \<Rightarrow> bool
     \<Rightarrow> (bool \<times> int64) result \<times> emailLinkSignIn \<times> db" where
  "signIn_finish c rt s now els lid oldEmail emailConfirmed =
     (let resetMsg = ''[reset] resetEmailModification failed for email:%v'';
          finishMsg = ''can't finish auth process for userID:%v,email:%v'' in
      case UserID els of
        None \<Rightarrow> (Panic NilPointerDereference, els, s)
      | Some userID \<Rightarrow>
         (case finishAuthProcess c rt s now lid userID (IssuedTokenSeq els) emailConfirmed
                 (Metadata els) of
            (Panic p, s1) \<Rightarrow> (Panic p, els, s1)
          | (Ok issuedTokenSeq, s1) \<Rightarrow> (Ok (emailConfirmed, issuedTokenSeq), els, s1)
          | (Err fErr, s1) \<Rightarrow>
              if oldEmail \<noteq> []
              then
                (case resetEmailModification c s1 userID oldEmail of
                   (Panic p, s2) \<Rightarrow> (Panic p, els, s2)
                 | (r1, s2) \<Rightarrow>
                    (case resetFirebaseEmailModification c s2 (Metadata els) oldEmail of
                       (Panic p, s3) \<Rightarrow> (Panic p, els, s3)
                     | (r2, s3) \<Rightarrow>
                         (returning (False, 0)
                            (ErrorOrNil (wrapped r1 resetMsg @ wrapped r2 resetMsg
                                         @ [Wrapf fErr finishMsg])),
                          els, s3)))
              else (returning (False, 0) (ErrorOrNil [Wrapf fErr finishMsg]), els, s1)))"

definition signIn ::
  "client \<Rightarrow> runtime \<Rightarrow> db \<Rightarrow> instant \<Rightarrow> emailLinkSignIn \<Rightarrow> loginID \<Rightarrow> string \<Rightarrow> string \<Rightarrow> string
     \<Rightarrow> (bool \<times> int64) result \<times> emailLinkSignIn \<times> db" where
  "signIn c rt s now els lid oldEmail notifyEmail confirmationCode =
     (if UserID els \<noteq> None \<and> Some (ConfirmationCode els) = UserID els
      then (Err (Wrapf ErrNoPendingLoginSession ''tokens already provided for id:%#v''), els, s)
      else
        (case verifySignIn c rt s els lid confirmationCode of
           (Panic p, s1) \<Rightarrow> (Panic p, els, s1)
         | (Err vErr, s1) \<Rightarrow> (Err (Wrapf vErr ''can't verify sign in for id:%#v''), els, s1)
         | (Ok u, s1) \<Rightarrow>
            (case signIn_modify c s1 els lid oldEmail notifyEmail of
               (Panic p, els2, s2) \<Rightarrow> (Panic p, els2, s2)
             | (Err e, els2, s2) \<Rightarrow> (Err e, els2, s2)
             | (Ok emailConfirmed, els2, s2) \<Rightarrow>
                 signIn_finish c rt s2 now els2 lid oldEmail emailConfirmed)))"

text \<open>\<^verbatim>\<open>storage.IsErr(err, storage.ErrNotFound)\<close> is \<^verbatim>\<open>errors.Is\<close> on the not-found
  sentinel.\<close>

definition SignIn ::
  "client \<Rightarrow> runtime \<Rightarrow> db \<Rightarrow> string \<Rightarrow> string \<Rightarrow> (Tokens \<times> bool) result \<times> db" where
  "SignIn c rt s loginSession confirmationCode =
     (let now = signin_now rt in
      case parseJwtToken c loginSession (EmailValidation_JwtSecret c) of
        Panic p \<Rightarrow> (Panic p, s)
      | Err e \<Rightarrow> (Err (Wrapf e ''invalid login flow token:%v''), s)
      | Ok token \<Rightarrow>
         (let lid = \<lparr>id_Email = Subject token, id_DeviceUniqueID = tok_DeviceUniqueID token\<rparr> in
          case getEmailLinkSignInByPk c s lid (OldEmail token) of
            Panic p \<Rightarrow> (Panic p, s)
          | Err e \<Rightarrow>
              if errors_Is e storage_ErrNotFound
              then (Err (Wrapf ErrNoConfirmationRequired
                      ''[getEmailLinkSignInByPk] no pending confirmation for email:%v''), s)
              else (Err (Wrapf e ''failed to get user info by email:%v(old email:%v)''), s)
          | Ok els \<Rightarrow>
             (case signIn c rt s now els lid (OldEmail token) (NotifyEmail token)
                     confirmationCode of
                (Panic p, els1, s1) \<Rightarrow> (Panic p, s1)
              | (Err e, els1, s1) \<Rightarrow>
                  (Err (Wrapf e ''can't sign in for email:%v, deviceUniqueID:%v''), s1)
              | (Ok (emailConfirmed, issuedTokenSeq), els1, s1) \<Rightarrow>
                 (let els2 = els1\<lparr>TokenIssuedAt := Some now\<rparr> in
                  case generateTokens c (TokenIssuedAt els2) els2 issuedTokenSeq of
                    Panic p \<Rightarrow> (Panic p, s1)
                  | Err e \<Rightarrow> (Err (Wrapf e ''can't generate tokens for id:%#v''), s1)
                  | Ok tokens \<Rightarrow>
                     (case resetLoginSession c rt s1 lid els2 confirmationCode
                             (ClientIP token) (LoginSessionNumber token) of
                        (Panic p, s2) \<Rightarrow> (Panic p, s2)
                      | (Err rErr, s2) \<Rightarrow>
                          (Err (Wrapf rErr ''can't reset login session for id:%#v''), s2)
                      | (Ok u, s2) \<Rightarrow> (Ok (tokens, emailConfirmed), s2))))))"

definition Status ::
  "client \<Rightarrow> runtime \<Rightarrow> db \<Rightarrow> string \<Rightarrow> (Tokens \<times> bool) result \<times> db" where
  "Status c rt s loginSession =
     (case parseJwtToken c loginSession (LoginSession_JwtSecret c) of
        Panic p \<Rightarrow> (Panic p, s)
      | Err e \<Rightarrow> (Err (Wrapf e ''can't parse login session:%v''), s)
      | Ok token \<Rightarrow>
         (let lid = \<lparr>id_Email = Subject token, id_DeviceUniqueID = tok_DeviceUniqueID token\<rparr> in
          case getConfirmedEmailLinkSignIn c s lid (tok_ConfirmationCode token) of
            Panic p \<Rightarrow> (Panic p, s)
          | Err e \<Rightarrow>
              if errors_Is e storage_ErrNotFound
              then (Err (Wrapf ErrNoPendingLoginSession
                      ''no pending login session:%v,id:%#v''), s)
              else (Err (Wrapf e
                      ''failed to get confirmed email link sign in for loginSession:%v,id:%#v''), s)
          | Ok els \<Rightarrow>
              if UserID els = None \<or> Some (OTP els) \<noteq> UserID els
              then (Err (Wrapf ErrStatusNotVerified ''not verified for id:%#v''), s)
              else if Some (ConfirmationCode els) = UserID els
              then (Err (Wrapf ErrNoPendingLoginSession ''tokens already provided for id:%#v''), s)
              else
                (case generateTokens c (TokenIssuedAt els) els (IssuedTokenSeq els) of
                   Panic p \<Rightarrow> (Panic p, s)
                 | Err e \<Rightarrow> (Err (Wrapf e ''can't generate tokens for id:%#v''), s)
                 | Ok tokens \<Rightarrow>
                    (case resetLoginSession_status c rt s lid els (tok_ConfirmationCode token) of
                       (Panic p, s1) \<Rightarrow> (Panic p, s1)
                     | (Err rErr, s1) \<Rightarrow>
                         (Err (Wrapf rErr ''can't reset login session for id:%#v''), s1)
                     | (Ok u, s1) \<Rightarrow> (Ok (tokens, EmailConfirmedAt els \<noteq> None), s1)))))"

section \<open>Concrete inputs\<close>

text \<open>
  A small configuration (three wrong attempts allowed, a block of 600 time units), a login
  identity, and collaborators that answer in the simplest way: the merge lets the stored
  metadata override, in the manner of \<^verbatim>\<open>mergo.WithOverride\<close>.
\<close>

definition demo_id :: loginID where
  "demo_id = \<lparr>id_Email = ''alice@x.com'', id_DeviceUniqueID = ''D1''\<rparr>"

definition demo_token :: loginFlowToken where
  "demo_token =
     \<lparr>Subject = ''alice@x.com'', tok_DeviceUniqueID = ''D1'', OldEmail = [], NotifyEmail = [],
      ClientIP = ''10.0.0.1'', tok_ConfirmationCode = ''123456'', LoginSessionNumber = 1\<rparr>"

definition demo_els :: emailLinkSignIn where
  "demo_els =
     \<lparr>CreatedAt = Some 10, TokenIssuedAt = None, BlockedUntil = None, EmailConfirmedAt = None,
      Metadata = None, UserID = Some ''u1'', PhoneNumberToEmailMigrationUserID = None,
      Email = ''alice@x.com'', DeviceUniqueID = ''D1'', ConfirmationCode = ''123456'',
      OTP = ''otp1'', IssuedTokenSeq = 5, PreviouslyIssuedTokenSeq = 5,
      ConfirmationCodeWrongAttemptsCount = 0\<rparr>"

definition demo_row :: sign_in_row where
  "demo_row =
     \<lparr>created_at = 10, token_issued_at = None, blocked_until = None, email_confirmed_at = Some 7,
      issued_token_seq = 5, previously_issued_token_seq = 5,
      confirmation_code_wrong_attempts_count = 0, confirmation_code = Some ''123456'',
      otp = Some ''otp1'', user_id = Some ''u1'',
      phone_number_to_email_migration_user_id = None\<rparr>"

definition demo_db :: db where
  "demo_db =
     \<lparr>email_link_sign_ins = [(''alice@x.com'', ''D1'') \<mapsto> demo_row],
      account_metadata = Map.empty,
      sign_ins_per_ip = Map.empty\<rparr>"

definition demo_client :: client where
  "demo_client =
     \<lparr>MaxWrongAttemptsCount = 3, BlockDuration = 600,
      EmailValidation_JwtSecret = ''secret-1'', LoginSession_JwtSecret = ''secret-2'',
      IceIDClaim = ''iceID'', RegisteredWithProviderClaim = ''registeredWithProvider'',
      FirebaseIDClaim = ''firebaseID'', ProviderFirebase = ''firebase'',
      iceIDPrefix = ''did:ethr:'',
      mergo_Merge = (\<lambda>dst src. Ok (dst ++ src)),
      parseJwtToken = (\<lambda>t secret. Ok demo_token),
      getEmailLinkSignInByPk = (\<lambda>s lid oldEmail. Ok demo_els),
      getConfirmedEmailLinkSignIn = (\<lambda>s lid code. Ok demo_els),
      generateTokens = (\<lambda>t els n. Ok \<lparr>RefreshToken = ''r'', AccessToken = ''a''\<rparr>),
      handleEmailModification = (\<lambda>s els newEmail oldEmail notifyEmail. (Ok (), els, s)),
      resetEmailModification = (\<lambda>s userID oldEmail. (Err (Failure ''revert failed''), s)),
      resetFirebaseEmailModification =
        (\<lambda>s md oldEmail. (Err (Failure ''provider revert failed''), s))\<rparr>"

definition demo_rt :: runtime where
  "demo_rt =
     \<lparr>signin_now = 1000, verify_now = 1000, block_now = 1001,
      increase_fault = None, finish_fault = None, reset_fault = None\<rparr>"

definition last_attempt_els :: emailLinkSignIn where
  "last_attempt_els = demo_els\<lparr>ConfirmationCodeWrongAttemptsCount := 2\<rparr>"

definition last_attempt_db :: db where
  "last_attempt_db =
     demo_db\<lparr>email_link_sign_ins :=
       [(''alice@x.com'', ''D1'') \<mapsto> demo_row\<lparr>confirmation_code_wrong_attempts_count := 2\<rparr>]\<rparr>"

definition consumed_els :: emailLinkSignIn where
  "consumed_els = demo_els\<lparr>ConfirmationCode := ''u1''\<rparr>"

text \<open>A session token that carries the marker itself as its code, and a lookup that finds the
  record only under the code it holds.\<close>

definition consumed_token :: loginFlowToken where
  "consumed_token = demo_token\<lparr>tok_ConfirmationCode := ''u1''\<rparr>"

definition consumed_client :: client where
  "consumed_client =
     demo_client\<lparr>parseJwtToken := (\<lambda>t secret. Ok consumed_token),
                 getEmailLinkSignInByPk := (\<lambda>s lid oldEmail. Ok consumed_els),
                 getConfirmedEmailLinkSignIn :=
                   (\<lambda>s lid code. if code = ''u1'' then Ok consumed_els
                                 else Err storage_ErrNotFound)\<rparr>"

definition no_user_els :: emailLinkSignIn where
  "no_user_els = demo_els\<lparr>UserID := None\<rparr>"

definition no_user_client :: client where
  "no_user_client = demo_client\<lparr>getEmailLinkSignInByPk := (\<lambda>s lid oldEmail. Ok no_user_els)\<rparr>"

section \<open>Rate Limiter: sequences of admit and refund\<close>

text \<open>
  Modelled from the spec: the admit step of the Rate Limiter (section 4.7). Its statement
  belongs to the link-issuance file, outside link_verify.go and the DDL. It counts one more
  attempt for \<open>(ip, loginSessionNumber)\<close>, a missing row starting from the column default 0;
  the check constraint of the table refuses a value above 10, and then the call fails with
  \<open>TooManyAttempts\<close> and the row stays as it was.
\<close>

definition admit :: "db \<Rightarrow> string \<Rightarrow> int64 \<Rightarrow> unit result \<times> db" where
  "admit s ip loginSessionNumber =
     (let a = (case sign_ins_per_ip s (loginSessionNumber, ip) of None \<Rightarrow> 0 | Some a \<Rightarrow> a) in
      if sint a = MaxInt64 \<or> 10 <s a + 1
      then (Err (Failure ''TooManyAttempts''), s)
      else (Ok (), s\<lparr>sign_ins_per_ip := (sign_ins_per_ip s)((loginSessionNumber, ip) \<mapsto> a + 1)\<rparr>))"

text \<open>A refund is the decrement that a call of resetLoginSession carries.\<close>

datatype ip_op =
    Admit string int64
  | Refund runtime loginID emailLinkSignIn string string int64

fun apply_ip_op :: "client \<Rightarrow> db \<Rightarrow> ip_op \<Rightarrow> db" where
  "apply_ip_op c s (Admit ip n) = snd (admit s ip n)"
| "apply_ip_op c s (Refund rt lid els prevConfirmationCode ip n) =
     snd (resetLoginSession c rt s lid els prevConfirmationCode ip n)"

definition attempts_in_range :: "db \<Rightarrow> bool" where
  "attempts_in_range s \<longleftrightarrow>
     (\<forall>k a. sign_ins_per_ip s k = Some a \<longrightarrow> 0 \<le> sint a \<and> sint a \<le> 10)"

section \<open>Sequences of writes to the sign-in table\<close>

text \<open>
  Modelled from the spec: the read of the store before a verification (\<open>getByKey\<close>, section
  4.2), as far as the block test of verifySignIn uses it. The reading function
  getEmailLinkSignInByPk lies outside link_verify.go; a struct read from row \<open>r\<close> carries the
  row's creation time, block end and wrong-attempt counter.
\<close>

definition reads_row :: "emailLinkSignIn \<Rightarrow> sign_in_row \<Rightarrow> bool" where
  "reads_row els r \<longleftrightarrow>
     CreatedAt els = Some (created_at r)
     \<and> BlockedUntil els = blocked_until r
     \<and> ConfirmationCodeWrongAttemptsCount els = confirmation_code_wrong_attempts_count r"

text \<open>The operations of link_verify.go and of the status poll that write to the store, each
  with its arguments.\<close>

datatype op =
    OpVerify runtime emailLinkSignIn loginID string
  | OpFinish runtime instant loginID string int64 bool "JSON option"
  | OpReset runtime loginID emailLinkSignIn string string int64
  | OpResetStatus runtime loginID emailLinkSignIn string

fun apply_op :: "client \<Rightarrow> db \<Rightarrow> op \<Rightarrow> db" where
  "apply_op c s (OpVerify rt els lid confirmationCode) =
     snd (verifySignIn c rt s els lid confirmationCode)"
| "apply_op c s (OpFinish rt now lid userID issuedTokenSeq emailConfirmed md) =
     snd (finishAuthProcess c rt s now lid userID issuedTokenSeq emailConfirmed md)"
| "apply_op c s (OpReset rt lid els prevConfirmationCode clientIP loginSessionNumber) =
     snd (resetLoginSession c rt s lid els prevConfirmationCode clientIP loginSessionNumber)"
| "apply_op c s (OpResetStatus rt lid els prevConfirmationCode) =
     snd (resetLoginSession_status c rt s lid els prevConfirmationCode)"

text \<open>
  A verification in a run after time \<open>t\<close>: its clock reading is not before \<open>t\<close>, and its
  struct was read from the row of its key as the row is at that moment.
\<close>

fun op_admissible :: "instant \<Rightarrow> db \<Rightarrow> op \<Rightarrow> bool" where
  "op_admissible t s (OpVerify rt els lid confirmationCode) =
     (t \<le> verify_now rt
      \<and> (case email_link_sign_ins s (id_Email lid, id_DeviceUniqueID lid) of
           None \<Rightarrow> False
         | Some r \<Rightarrow> reads_row els r))"
| "op_admissible t s x = True"

fun admissible :: "client \<Rightarrow> instant \<Rightarrow> db \<Rightarrow> op list \<Rightarrow> bool" where
  "admissible c t s [] = True"
| "admissible c t s (x # xs) = (op_admissible t s x \<and> admissible c t (apply_op c s x) xs)"

text \<open>The block state of a row at time \<open>t\<close>, as the first test of verifySignIn reads it.\<close>

definition block_covers :: "client \<Rightarrow> instant \<Rightarrow> sign_in_row \<Rightarrow> bool" where
  "block_covers c t r \<longleftrightarrow>
     MaxWrongAttemptsCount c \<le>s confirmation_code_wrong_attempts_count r
     \<and> (case blocked_until r of
          None \<Rightarrow> False
        | Some bu \<Rightarrow> created_at r < bu \<and> bu < t + BlockDuration c)"

definition blocked_row :: sign_in_row where
  "blocked_row = demo_row\<lparr>confirmation_code_wrong_attempts_count := 3, blocked_until := Some 50\<rparr>"

definition blocked_els :: emailLinkSignIn where
  "blocked_els = demo_els\<lparr>ConfirmationCodeWrongAttemptsCount := 3, BlockedUntil := Some 50\<rparr>"

definition blocked_db :: db where
  "blocked_db = demo_db\<lparr>email_link_sign_ins := [(''alice@x.com'', ''D1'') \<mapsto> blocked_row]\<rparr>"

text \<open>A client whose two reversions succeed.\<close>

definition reverting_client :: client where
  "reverting_client =
     demo_client\<lparr>resetEmailModification := (\<lambda>s userID oldEmail. (Ok (), s)),
                 resetFirebaseEmailModification := (\<lambda>s md oldEmail. (Ok (), s))\<rparr>"

section \<open>Verified properties\<close>

subsection \<open>Confirmation Verifier\<close>

text \<open>
  C5. A record over budget (\<open>wrongAttemptsCount \<ge> maxAttempts\<close>) whose \<open>blockedUntil\<close> is set,
  strictly after \<open>createdAt\<close> and strictly before \<open>now + blockDuration\<close>: verifySignIn
  returns the attempts-exceeded error alone and hands the database back as it was, whatever
  code is presented.
\<close>

theorem verifySignIn_blocked_no_side_effect:
  assumes "MaxWrongAttemptsCount c \<le>s ConfirmationCodeWrongAttemptsCount els"
    and "BlockedUntil els = Some bu"
    and "CreatedAt els = Some cr"
    and "cr < bu"
    and "bu < verify_now rt + BlockDuration c"
  shows "verifySignIn c rt s els lid confirmationCode =
           (Err (Wrapf ErrConfirmationCodeAttemptsExceeded
                  ''confirmation code wrong attempts count exceeded for id:%#v''), s)"
  using assms by (simp add: verifySignIn_def blockTimeFitsNow_def)

theorem verifySignIn_blocked_no_side_effect_witness:
  "MaxWrongAttemptsCount demo_client
     \<le>s ConfirmationCodeWrongAttemptsCount
          (demo_els\<lparr>ConfirmationCodeWrongAttemptsCount := 3, BlockedUntil := Some 700\<rparr>)
   \<and> (10::int) < 700 \<and> 700 < verify_now demo_rt + BlockDuration demo_client
   \<and> verifySignIn demo_client demo_rt demo_db
        (demo_els\<lparr>ConfirmationCodeWrongAttemptsCount := 3, BlockedUntil := Some 700\<rparr>)
        demo_id ''123456''
      = (Err (Wrapf ErrConfirmationCodeAttemptsExceeded
                ''confirmation code wrong attempts count exceeded for id:%#v''), demo_db)"
  using verifySignIn_blocked_no_side_effect
          [of demo_client "demo_els\<lparr>ConfirmationCodeWrongAttemptsCount := 3, BlockedUntil := Some 700\<rparr>"
              700 10 demo_rt demo_db demo_id "''123456''"]
  by (simp add: demo_client_def demo_els_def demo_rt_def)

subsection \<open>Session Finalizer\<close>

lemma sint_succ: "sint (a::int64) \<noteq> MaxInt64 \<Longrightarrow> sint (a + 1) = sint a + 1"
proof -
  assume h: "sint a \<noteq> MaxInt64"
  have lo: "- (2 ^ 63) \<le> sint a" using sint_ge [of a] by simp
  have hi: "sint a < 2 ^ 63" using sint_lt [of a] by simp
  from h hi have "sint a + 1 < 2 ^ 63" by (simp add: MaxInt64_def)
  with lo show ?thesis
    by (simp add: sint_word_ariths signed_take_bit_int_eq_self)
qed

text \<open>Every successful finalize, spelled out: the row it found and the state it leaves.\<close>

lemma finishAuthProcess_Ok:
  assumes "finishAuthProcess c rt s now lid userID issuedTokenSeq emailConfirmed md0 = (Ok n, s')"
  shows "\<exists>r merged.
           email_link_sign_ins s (id_Email lid, id_DeviceUniqueID lid) = Some r
         \<and> issued_token_seq r = issuedTokenSeq
         \<and> sint issuedTokenSeq \<noteq> MaxInt64
         \<and> n = issuedTokenSeq + 1
         \<and> s' = s\<lparr>account_metadata := (account_metadata s)(userID \<mapsto> merged),
                  email_link_sign_ins :=
                    (email_link_sign_ins s)((id_Email lid, id_DeviceUniqueID lid) \<mapsto>
                       r\<lparr>token_issued_at := Some now,
                         user_id := Some userID,
                         email_confirmed_at := (if emailConfirmed then Some now else None),
                         phone_number_to_email_migration_user_id := None,
                         issued_token_seq := issuedTokenSeq + 1,
                         previously_issued_token_seq := issuedTokenSeq + 1\<rparr>)\<rparr>"
  using assms
  by (auto simp: finishAuthProcess_def Let_def split: result.splits option.splits if_splits)

lemma demo_finish_runs:
  "finishAuthProcess demo_client demo_rt demo_db 1000 demo_id ''u1'' 5 False None =
     (Ok 6,
      demo_db\<lparr>account_metadata := [''u1'' \<mapsto> [''iceID'' \<mapsto> JString ''u1'']],
             email_link_sign_ins := [(''alice@x.com'', ''D1'') \<mapsto>
                demo_row\<lparr>token_issued_at := Some 1000, user_id := Some ''u1'',
                         email_confirmed_at := None,
                         phone_number_to_email_migration_user_id := None,
                         issued_token_seq := 6, previously_issued_token_seq := 6\<rparr>]\<rparr>)"
  by (simp add: finishAuthProcess_def mdToUpdate_of_def demo_client_def demo_rt_def demo_db_def
        demo_id_def demo_row_def MaxInt64_def)

text \<open>
  C1. When the stored \<open>issuedTokenSeq\<close> differs from the value the caller read, finalize never
  succeeds; once its statement runs (the metadata merged, the storage layer up) it fails with
  the wrapped \<open>ErrNoConfirmationRequired\<close> and the sign-in table is as before. A failure of the
  storage layer itself gives an error in which \<open>errors.Is\<close> does not find
  \<open>ErrNoConfirmationRequired\<close>, while it finds it in the race-lost error.
\<close>

theorem finishAuthProcess_race_lost:
  assumes "mdToUpdate_of c userID (case md0 of None \<Rightarrow> Map.empty | Some m \<Rightarrow> m) = Ok m0"
    and "mergo_Merge c m0 (case md0 of None \<Rightarrow> Map.empty | Some m \<Rightarrow> m) = Ok merged"
    and "email_link_sign_ins s (id_Email lid, id_DeviceUniqueID lid) = Some r"
    and "issued_token_seq r \<noteq> issuedTokenSeq"
  shows "(finish_fault rt = None \<longrightarrow>
            (\<exists>s'. finishAuthProcess c rt s now lid userID issuedTokenSeq emailConfirmed md0 =
                    (Err (Wrapf ErrNoConfirmationRequired
                       ''[finishAuthProcess] No records were updated to finish: race condition''), s')
                 \<and> email_link_sign_ins s' = email_link_sign_ins s))
       \<and> errors_Is (Wrapf ErrNoConfirmationRequired
                       ''[finishAuthProcess] No records were updated to finish: race condition'')
            ErrNoConfirmationRequired
       \<and> (\<forall>f. finish_fault rt = Some f \<longrightarrow>
            (\<exists>e. finishAuthProcess c rt s now lid userID issuedTokenSeq emailConfirmed md0 =
                    (Err e, s)
                 \<and> \<not> errors_Is e ErrNoConfirmationRequired))
       \<and> (\<forall>n s'. finishAuthProcess c rt s now lid userID issuedTokenSeq emailConfirmed md0 \<noteq>
                    (Ok n, s'))"
proof (intro conjI allI impI)
  assume "finish_fault rt = None"
  with assms
  show "\<exists>s'. finishAuthProcess c rt s now lid userID issuedTokenSeq emailConfirmed md0 =
                (Err (Wrapf ErrNoConfirmationRequired
                   ''[finishAuthProcess] No records were updated to finish: race condition''), s')
             \<and> email_link_sign_ins s' = email_link_sign_ins s"
    by (simp add: finishAuthProcess_def)
next
  show "errors_Is (Wrapf ErrNoConfirmationRequired
                     ''[finishAuthProcess] No records were updated to finish: race condition'')
          ErrNoConfirmationRequired"
    by simp
next
  fix f assume "finish_fault rt = Some f"
  with assms
  show "\<exists>e. finishAuthProcess c rt s now lid userID issuedTokenSeq emailConfirmed md0 = (Err e, s)
             \<and> \<not> errors_Is e ErrNoConfirmationRequired"
    by (simp add: finishAuthProcess_def)
next
  fix n s'
  show "finishAuthProcess c rt s now lid userID issuedTokenSeq emailConfirmed md0 \<noteq> (Ok n, s')"
  proof
    assume "finishAuthProcess c rt s now lid userID issuedTokenSeq emailConfirmed md0 = (Ok n, s')"
    from finishAuthProcess_Ok [OF this] assms(3,4) show False by auto
  qed
qed

theorem finishAuthProcess_race_lost_witness:
  "email_link_sign_ins demo_db (id_Email demo_id, id_DeviceUniqueID demo_id) = Some demo_row
   \<and> issued_token_seq demo_row \<noteq> 4
   \<and> fst (finishAuthProcess demo_client demo_rt demo_db 1000 demo_id ''u1'' 4 False None) =
        Err (Wrapf ErrNoConfirmationRequired
               ''[finishAuthProcess] No records were updated to finish: race condition'')
   \<and> email_link_sign_ins
        (snd (finishAuthProcess demo_client demo_rt demo_db 1000 demo_id ''u1'' 4 False None)) =
        email_link_sign_ins demo_db
   \<and> finishAuthProcess demo_client (demo_rt\<lparr>finish_fault := Some ''connection refused''\<rparr>)
        demo_db 1000 demo_id ''u1'' 4 False None =
        (Err (Wrapf (Failure ''connection refused'')
                ''failed to insert generated token data for:%#v''), demo_db)"
proof -
  have a: "mdToUpdate_of demo_client ''u1'' (case None of None \<Rightarrow> Map.empty | Some m \<Rightarrow> m) =
             Ok [''iceID'' \<mapsto> JString ''u1'']"
    by (simp add: mdToUpdate_of_def demo_client_def)
  have b: "mergo_Merge demo_client [''iceID'' \<mapsto> JString ''u1'']
             (case None of None \<Rightarrow> Map.empty | Some m \<Rightarrow> m) = Ok [''iceID'' \<mapsto> JString ''u1'']"
    by (simp add: demo_client_def)
  have c: "email_link_sign_ins demo_db (id_Email demo_id, id_DeviceUniqueID demo_id) = Some demo_row"
    by (simp add: demo_db_def demo_id_def)
  have d: "issued_token_seq demo_row \<noteq> 4"
    by (simp add: demo_row_def)
  have n: "finish_fault demo_rt = None"
    by (simp add: demo_rt_def)
  have f: "finish_fault (demo_rt\<lparr>finish_fault := Some ''connection refused''\<rparr>) =
             Some ''connection refused''"
    by simp
  from finishAuthProcess_race_lost [OF a b c d, of demo_rt 1000 False] n
  obtain s' where
    "finishAuthProcess demo_client demo_rt demo_db 1000 demo_id ''u1'' 4 False None =
       (Err (Wrapf ErrNoConfirmationRequired
          ''[finishAuthProcess] No records were updated to finish: race condition''), s')"
    "email_link_sign_ins s' = email_link_sign_ins demo_db"
    by blast
  moreover
  have "finishAuthProcess demo_client (demo_rt\<lparr>finish_fault := Some ''connection refused''\<rparr>)
          demo_db 1000 demo_id ''u1'' 4 False None =
        (Err (Wrapf (Failure ''connection refused'')
                ''failed to insert generated token data for:%#v''), demo_db)"
    using a b f by (simp add: finishAuthProcess_def)
  ultimately show ?thesis using c d by simp
qed

text \<open>
  C2, as stated, fails: finalize on the row with \<open>issuedTokenSeq = 5\<close> returns 6 and stores 6
  in \<open>previouslyIssuedTokenSeq\<close> too, not the prior value 5.
\<close>

theorem finishAuthProcess_previous_seq_counterexample:
  "issued_token_seq demo_row = 5
   \<and> fst (finishAuthProcess demo_client demo_rt demo_db 1000 demo_id ''u1'' 5 False None) = Ok 6
   \<and> map_option previously_issued_token_seq
        (email_link_sign_ins
           (snd (finishAuthProcess demo_client demo_rt demo_db 1000 demo_id ''u1'' 5 False None))
           (''alice@x.com'', ''D1'')) = Some 6
   \<and> map_option previously_issued_token_seq
        (email_link_sign_ins
           (snd (finishAuthProcess demo_client demo_rt demo_db 1000 demo_id ''u1'' 5 False None))
           (''alice@x.com'', ''D1'')) \<noteq> Some (issued_token_seq demo_row)"
  by (simp add: demo_finish_runs) (simp add: demo_row_def)

text \<open>
  C2, amended. A successful finalize found the row with the caller's \<open>issuedTokenSeq\<close>, returns
  that value plus 1 (no wrap-around), and leaves both \<open>issuedTokenSeq\<close> and
  \<open>previouslyIssuedTokenSeq\<close> at the returned value.
\<close>

theorem finishAuthProcess_advances_seq:
  assumes "finishAuthProcess c rt s now lid userID issuedTokenSeq emailConfirmed md0 = (Ok n, s')"
  shows "\<exists>r r'. email_link_sign_ins s (id_Email lid, id_DeviceUniqueID lid) = Some r
               \<and> email_link_sign_ins s' (id_Email lid, id_DeviceUniqueID lid) = Some r'
               \<and> issued_token_seq r = issuedTokenSeq
               \<and> n = issued_token_seq r + 1
               \<and> sint n = sint (issued_token_seq r) + 1
               \<and> issued_token_seq r' = n
               \<and> previously_issued_token_seq r' = n"
proof -
  from finishAuthProcess_Ok [OF assms] obtain r merged where
    r: "email_link_sign_ins s (id_Email lid, id_DeviceUniqueID lid) = Some r"
    and seq: "issued_token_seq r = issuedTokenSeq"
    and nomax: "sint issuedTokenSeq \<noteq> MaxInt64"
    and n: "n = issuedTokenSeq + 1"
    and s': "s' = s\<lparr>account_metadata := (account_metadata s)(userID \<mapsto> merged),
                  email_link_sign_ins :=
                    (email_link_sign_ins s)((id_Email lid, id_DeviceUniqueID lid) \<mapsto>
                       r\<lparr>token_issued_at := Some now,
                         user_id := Some userID,
                         email_confirmed_at := (if emailConfirmed then Some now else None),
                         phone_number_to_email_migration_user_id := None,
                         issued_token_seq := issuedTokenSeq + 1,
                         previously_issued_token_seq := issuedTokenSeq + 1\<rparr>)\<rparr>"
    by blast
  from nomax n have "sint n = sint issuedTokenSeq + 1" by (simp add: sint_succ)
  with r seq n s' show ?thesis by simp
qed

theorem finishAuthProcess_advances_seq_witness:
  "finishAuthProcess demo_client demo_rt demo_db 1000 demo_id ''u1'' 5 False None =
     (Ok 6,
      demo_db\<lparr>account_metadata := [''u1'' \<mapsto> [''iceID'' \<mapsto> JString ''u1'']],
             email_link_sign_ins := [(''alice@x.com'', ''D1'') \<mapsto>
                demo_row\<lparr>token_issued_at := Some 1000, user_id := Some ''u1'',
                         email_confirmed_at := None,
                         phone_number_to_email_migration_user_id := None,
                         issued_token_seq := 6, previously_issued_token_seq := 6\<rparr>]\<rparr>)
   \<and> (\<exists>r r'. email_link_sign_ins demo_db (id_Email demo_id, id_DeviceUniqueID demo_id) = Some r
          \<and> email_link_sign_ins
               (demo_db\<lparr>account_metadata := [''u1'' \<mapsto> [''iceID'' \<mapsto> JString ''u1'']],
                  email_link_sign_ins := [(''alice@x.com'', ''D1'') \<mapsto>
                    demo_row\<lparr>token_issued_at := Some 1000, user_id := Some ''u1'',
                         email_confirmed_at := None,
                         phone_number_to_email_migration_user_id := None,
                         issued_token_seq := 6, previously_issued_token_seq := 6\<rparr>]\<rparr>)
               (id_Email demo_id, id_DeviceUniqueID demo_id) = Some r'
          \<and> issued_token_seq r = 5 \<and> (6::int64) = issued_token_seq r + 1
          \<and> sint (6::int64) = sint (issued_token_seq r) + 1
          \<and> issued_token_seq r' = 6 \<and> previously_issued_token_seq r' = 6)"
  using finishAuthProcess_advances_seq [OF demo_finish_runs] demo_finish_runs by simp

text \<open>
  C8, as stated, fails: the row holds \<open>emailConfirmedAt = 7\<close>; finalize with
  \<open>emailConfirmed = false\<close> succeeds and the column is null afterwards.
\<close>

theorem finishAuthProcess_emailConfirmedAt_counterexample:
  "email_confirmed_at demo_row = Some 7
   \<and> fst (finishAuthProcess demo_client demo_rt demo_db 1000 demo_id ''u1'' 5 False None) = Ok 6
   \<and> map_option email_confirmed_at
        (email_link_sign_ins
           (snd (finishAuthProcess demo_client demo_rt demo_db 1000 demo_id ''u1'' 5 False None))
           (''alice@x.com'', ''D1'')) = Some None"
  by (simp add: demo_finish_runs) (simp add: demo_row_def)

text \<open>
  C8, amended. After a successful finalize \<open>emailConfirmedAt\<close> is \<open>now\<close> when \<open>emailConfirmed\<close>
  holds and null when it does not, whatever the row held before; so it is \<open>now\<close> if and
  only if \<open>emailConfirmed\<close>.
\<close>

theorem finishAuthProcess_emailConfirmedAt:
  assumes "finishAuthProcess c rt s now lid userID issuedTokenSeq emailConfirmed md0 = (Ok n, s')"
  shows "\<exists>r'. email_link_sign_ins s' (id_Email lid, id_DeviceUniqueID lid) = Some r'
             \<and> email_confirmed_at r' = (if emailConfirmed then Some now else None)
             \<and> (email_confirmed_at r' = Some now \<longleftrightarrow> emailConfirmed)"
  using finishAuthProcess_Ok [OF assms] by auto

theorem finishAuthProcess_emailConfirmedAt_witness:
  "finishAuthProcess demo_client demo_rt demo_db 1000 demo_id ''u1'' 5 True None =
     (Ok 6,
      demo_db\<lparr>account_metadata := [''u1'' \<mapsto> [''iceID'' \<mapsto> JString ''u1'']],
             email_link_sign_ins := [(''alice@x.com'', ''D1'') \<mapsto>
                demo_row\<lparr>token_issued_at := Some 1000, user_id := Some ''u1'',
                         email_confirmed_at := Some 1000,
                         phone_number_to_email_migration_user_id := None,
                         issued_token_seq := 6, previously_issued_token_seq := 6\<rparr>]\<rparr>)
   \<and> (\<exists>r'. email_link_sign_ins
               (demo_db\<lparr>account_metadata := [''u1'' \<mapsto> [''iceID'' \<mapsto> JString ''u1'']],
                  email_link_sign_ins := [(''alice@x.com'', ''D1'') \<mapsto>
                    demo_row\<lparr>token_issued_at := Some 1000, user_id := Some ''u1'',
                         email_confirmed_at := Some 1000,
                         phone_number_to_email_migration_user_id := None,
                         issued_token_seq := 6, previously_issued_token_seq := 6\<rparr>]\<rparr>)
               (id_Email demo_id, id_DeviceUniqueID demo_id) = Some r'
          \<and> email_confirmed_at r' = Some 1000)"
proof -
  have run: "finishAuthProcess demo_client demo_rt demo_db 1000 demo_id ''u1'' 5 True None =
     (Ok 6,
      demo_db\<lparr>account_metadata := [''u1'' \<mapsto> [''iceID'' \<mapsto> JString ''u1'']],
             email_link_sign_ins := [(''alice@x.com'', ''D1'') \<mapsto>
                demo_row\<lparr>token_issued_at := Some 1000, user_id := Some ''u1'',
                         email_confirmed_at := Some 1000,
                         phone_number_to_email_migration_user_id := None,
                         issued_token_seq := 6, previously_issued_token_seq := 6\<rparr>]\<rparr>)"
    by (simp add: finishAuthProcess_def mdToUpdate_of_def demo_client_def demo_rt_def demo_db_def
          demo_id_def demo_row_def MaxInt64_def)
  from finishAuthProcess_emailConfirmedAt [OF run] run show ?thesis by simp
qed

subsection \<open>Wrong code on the last attempt\<close>

lemma errors_Is_refl: "errors_Is e e"
  by (cases e) simp_all

lemma sint_last_attempt:
  assumes "sint (n::int64) = sint (m::int64) - 1"
  shows "\<not> m \<le>s n" and "m \<le>s n + 1"
proof -
  have "sint m \<le> MaxInt64" using sint_lt [of m] by (simp add: MaxInt64_def)
  with assms have "sint n \<noteq> MaxInt64" by simp
  then have "sint (n + 1) = sint n + 1" by (rule sint_succ)
  with assms show "\<not> m \<le>s n" and "m \<le>s n + 1" by (simp_all add: word_sle_eq)
qed

text \<open>
  C4, as stated, fails: with three attempts allowed and two already counted, a wrong code
  yields a multi-error whose only cause is the wrong-code error; \<open>errors.Is\<close> does not find
  the attempts-exceeded error in it.
\<close>

theorem verifySignIn_last_attempt_counterexample:
  "sint (ConfirmationCodeWrongAttemptsCount last_attempt_els)
     = sint (MaxWrongAttemptsCount demo_client) - 1
   \<and> ConfirmationCode last_attempt_els \<noteq> ''000000''
   \<and> fst (verifySignIn demo_client demo_rt last_attempt_db last_attempt_els demo_id ''000000'')
       = Err (MultiError [Wrapf ErrConfirmationCodeWrong ''wrong confirmation code:%v''])
   \<and> \<not> errors_Is (MultiError [Wrapf ErrConfirmationCodeWrong ''wrong confirmation code:%v''])
          ErrConfirmationCodeAttemptsExceeded"
  by (simp add: verifySignIn_def verifySignIn_compare_def
        increaseWrongConfirmationCodeAttemptsCount_def ErrorOrNil_def last_attempt_els_def
        last_attempt_db_def demo_els_def demo_client_def demo_rt_def demo_db_def demo_id_def
        demo_row_def MaxInt64_def)

text \<open>
  The write of increaseWrongConfirmationCodeAttemptsCount either goes through, or returns a
  wrapped storage failure or a wrapped not-found and leaves the database as it was.
\<close>

lemma increase_outcome:
  "(\<exists>r. increase_fault rt = None
        \<and> email_link_sign_ins s (id_Email lid, id_DeviceUniqueID lid) = Some r
        \<and> sint (confirmation_code_wrong_attempts_count r) \<noteq> MaxInt64
        \<and> increaseWrongConfirmationCodeAttemptsCount c rt s lid b =
            (Ok (),
             s\<lparr>email_link_sign_ins :=
                 (email_link_sign_ins s)((id_Email lid, id_DeviceUniqueID lid) \<mapsto>
                    r\<lparr>confirmation_code_wrong_attempts_count :=
                         confirmation_code_wrong_attempts_count r + 1,
                      blocked_until := (if b then Some (block_now rt + BlockDuration c)
                                        else blocked_until r)\<rparr>)\<rparr>))
   \<or> (\<not> (increase_fault rt = None
           \<and> (\<exists>r. email_link_sign_ins s (id_Email lid, id_DeviceUniqueID lid) = Some r
                  \<and> sint (confirmation_code_wrong_attempts_count r) \<noteq> MaxInt64))
       \<and> (\<exists>e. increaseWrongConfirmationCodeAttemptsCount c rt s lid b =
                  (Err (Wrapf e ''can't update email link sign ins for the user with pk:%#v''), s)
               \<and> (e = storage_ErrNotFound \<or> (\<exists>f. e = Failure f))))"
  by (auto simp: increaseWrongConfirmationCodeAttemptsCount_def Let_def split: option.splits)

text \<open>
  C4, amended. A wrong code on a record with \<open>wrongAttemptsCount = maxAttempts - 1\<close>:
  verifySignIn returns an error in which \<open>errors.Is\<close> finds the wrong-code error and does not
  find the attempts-exceeded one. When the row is there, its stored counter is below the
  \<open>BIGINT\<close> maximum and the storage layer does not fail, the row's counter goes up by one and
  \<open>blockedUntil\<close> becomes \<open>now + blockDuration\<close> in that one write, and the multi-error holds
  the wrong-code error alone. In every other case nothing is written.
\<close>

theorem verifySignIn_last_attempt:
  assumes "sint (ConfirmationCodeWrongAttemptsCount els) = sint (MaxWrongAttemptsCount c) - 1"
    and "ConfirmationCode els \<noteq> confirmationCode"
  shows "(\<exists>e s'. verifySignIn c rt s els lid confirmationCode = (Err e, s')
               \<and> errors_Is e ErrConfirmationCodeWrong
               \<and> \<not> errors_Is e ErrConfirmationCodeAttemptsExceeded)
       \<and> (\<forall>r. increase_fault rt = None
               \<and> email_link_sign_ins s (id_Email lid, id_DeviceUniqueID lid) = Some r
               \<and> sint (confirmation_code_wrong_attempts_count r) \<noteq> MaxInt64
             \<longrightarrow> verifySignIn c rt s els lid confirmationCode =
                   (Err (MultiError
                           [Wrapf ErrConfirmationCodeWrong ''wrong confirmation code:%v'']),
                    s\<lparr>email_link_sign_ins :=
                        (email_link_sign_ins s)((id_Email lid, id_DeviceUniqueID lid) \<mapsto>
                           r\<lparr>confirmation_code_wrong_attempts_count :=
                                confirmation_code_wrong_attempts_count r + 1,
                             blocked_until := Some (block_now rt + BlockDuration c)\<rparr>)\<rparr>))
       \<and> (\<not> (increase_fault rt = None
               \<and> (\<exists>r. email_link_sign_ins s (id_Email lid, id_DeviceUniqueID lid) = Some r
                      \<and> sint (confirmation_code_wrong_attempts_count r) \<noteq> MaxInt64))
             \<longrightarrow> snd (verifySignIn c rt s els lid confirmationCode) = s)"
proof -
  note la = sint_last_attempt [OF assms(1)]
  let ?inc = "increaseWrongConfirmationCodeAttemptsCount c rt s lid True"
  from increase_outcome [of rt s lid c True]
  show ?thesis
  proof
    assume "\<exists>r. increase_fault rt = None
        \<and> email_link_sign_ins s (id_Email lid, id_DeviceUniqueID lid) = Some r
        \<and> sint (confirmation_code_wrong_attempts_count r) \<noteq> MaxInt64
        \<and> ?inc =
            (Ok (),
             s\<lparr>email_link_sign_ins :=
                 (email_link_sign_ins s)((id_Email lid, id_DeviceUniqueID lid) \<mapsto>
                    r\<lparr>confirmation_code_wrong_attempts_count :=
                         confirmation_code_wrong_attempts_count r + 1,
                      blocked_until := (if True then Some (block_now rt + BlockDuration c)
                                        else blocked_until r)\<rparr>)\<rparr>)"
    then obtain r where r: "increase_fault rt = None"
        "email_link_sign_ins s (id_Email lid, id_DeviceUniqueID lid) = Some r"
        "sint (confirmation_code_wrong_attempts_count r) \<noteq> MaxInt64"
      and inc: "?inc =
            (Ok (),
             s\<lparr>email_link_sign_ins :=
                 (email_link_sign_ins s)((id_Email lid, id_DeviceUniqueID lid) \<mapsto>
                    r\<lparr>confirmation_code_wrong_attempts_count :=
                         confirmation_code_wrong_attempts_count r + 1,
                      blocked_until := Some (block_now rt + BlockDuration c)\<rparr>)\<rparr>)"
      by auto
    from la assms(2) inc
    have "verifySignIn c rt s els lid confirmationCode =
            (Err (MultiError [Wrapf ErrConfirmationCodeWrong ''wrong confirmation code:%v'']),
             s\<lparr>email_link_sign_ins :=
                 (email_link_sign_ins s)((id_Email lid, id_DeviceUniqueID lid) \<mapsto>
                    r\<lparr>confirmation_code_wrong_attempts_count :=
                         confirmation_code_wrong_attempts_count r + 1,
                      blocked_until := Some (block_now rt + BlockDuration c)\<rparr>)\<rparr>)"
      by (simp add: verifySignIn_def verifySignIn_compare_def ErrorOrNil_def)
    with r show ?thesis by auto
  next
    assume "\<not> (increase_fault rt = None
           \<and> (\<exists>r. email_link_sign_ins s (id_Email lid, id_DeviceUniqueID lid) = Some r
                  \<and> sint (confirmation_code_wrong_attempts_count r) \<noteq> MaxInt64))
       \<and> (\<exists>e. ?inc =
                  (Err (Wrapf e ''can't update email link sign ins for the user with pk:%#v''), s)
               \<and> (e = storage_ErrNotFound \<or> (\<exists>f. e = Failure f)))"
    then obtain e where no: "\<not> (increase_fault rt = None
           \<and> (\<exists>r. email_link_sign_ins s (id_Email lid, id_DeviceUniqueID lid) = Some r
                  \<and> sint (confirmation_code_wrong_attempts_count r) \<noteq> MaxInt64))"
      and inc: "?inc =
                  (Err (Wrapf e ''can't update email link sign ins for the user with pk:%#v''), s)"
      and e: "e = storage_ErrNotFound \<or> (\<exists>f. e = Failure f)"
      by blast
    from la assms(2) inc
    have r: "verifySignIn c rt s els lid confirmationCode =
            (Err (MultiError
               [Wrapf (Wrapf e ''can't update email link sign ins for the user with pk:%#v'')
                  ''can't increment wrong confirmation code attempts count for email:%v,deviceUniqueID:%v'',
                Wrapf ErrConfirmationCodeWrong ''wrong confirmation code:%v'']),
             s)"
      by (simp add: verifySignIn_def verifySignIn_compare_def ErrorOrNil_def)
    from e have "\<not> errors_Is (MultiError
               [Wrapf (Wrapf e ''can't update email link sign ins for the user with pk:%#v'')
                  ''can't increment wrong confirmation code attempts count for email:%v,deviceUniqueID:%v'',
                Wrapf ErrConfirmationCodeWrong ''wrong confirmation code:%v''])
              ErrConfirmationCodeAttemptsExceeded"
      by auto
    moreover have "errors_Is (MultiError
               [Wrapf (Wrapf e ''can't update email link sign ins for the user with pk:%#v'')
                  ''can't increment wrong confirmation code attempts count for email:%v,deviceUniqueID:%v'',
                Wrapf ErrConfirmationCodeWrong ''wrong confirmation code:%v''])
              ErrConfirmationCodeWrong"
      by simp
    ultimately show ?thesis using r no by auto
  qed
qed

theorem verifySignIn_last_attempt_witness:
  "sint (ConfirmationCodeWrongAttemptsCount last_attempt_els)
     = sint (MaxWrongAttemptsCount demo_client) - 1
   \<and> ConfirmationCode last_attempt_els \<noteq> ''000000''
   \<and> increase_fault demo_rt = None
   \<and> email_link_sign_ins last_attempt_db (id_Email demo_id, id_DeviceUniqueID demo_id)
       = Some (demo_row\<lparr>confirmation_code_wrong_attempts_count := 2\<rparr>)
   \<and> verifySignIn demo_client demo_rt last_attempt_db last_attempt_els demo_id ''000000'' =
       (Err (MultiError [Wrapf ErrConfirmationCodeWrong ''wrong confirmation code:%v'']),
        last_attempt_db\<lparr>email_link_sign_ins :=
          [(''alice@x.com'', ''D1'') \<mapsto>
             demo_row\<lparr>confirmation_code_wrong_attempts_count := 3,
                      blocked_until := Some 1601\<rparr>]\<rparr>)
   \<and> increase_fault (demo_rt\<lparr>increase_fault := Some ''connection refused''\<rparr>) \<noteq> None
   \<and> snd (verifySignIn demo_client (demo_rt\<lparr>increase_fault := Some ''connection refused''\<rparr>)
             last_attempt_db last_attempt_els demo_id ''000000'') = last_attempt_db"
proof -
  have a: "sint (ConfirmationCodeWrongAttemptsCount last_attempt_els)
             = sint (MaxWrongAttemptsCount demo_client) - 1"
    by (simp add: last_attempt_els_def demo_els_def demo_client_def)
  have b: "ConfirmationCode last_attempt_els \<noteq> ''000000''"
    by (simp add: last_attempt_els_def demo_els_def)
  have c: "increase_fault demo_rt = None"
    by (simp add: demo_rt_def)
  have d: "email_link_sign_ins last_attempt_db (id_Email demo_id, id_DeviceUniqueID demo_id)
             = Some (demo_row\<lparr>confirmation_code_wrong_attempts_count := 2\<rparr>)"
    by (simp add: last_attempt_db_def demo_id_def)
  have e: "sint (confirmation_code_wrong_attempts_count
                   (demo_row\<lparr>confirmation_code_wrong_attempts_count := 2\<rparr>)) \<noteq> MaxInt64"
    by (simp add: MaxInt64_def)
  have f: "increase_fault (demo_rt\<lparr>increase_fault := Some ''connection refused''\<rparr>) \<noteq> None"
    by simp
  from verifySignIn_last_attempt [OF a b, of demo_rt last_attempt_db demo_id] c d e
  have g: "verifySignIn demo_client demo_rt last_attempt_db last_attempt_els demo_id ''000000'' =
       (Err (MultiError [Wrapf ErrConfirmationCodeWrong ''wrong confirmation code:%v'']),
        last_attempt_db\<lparr>email_link_sign_ins :=
          (email_link_sign_ins last_attempt_db)((id_Email demo_id, id_DeviceUniqueID demo_id) \<mapsto>
             demo_row\<lparr>confirmation_code_wrong_attempts_count := 2,
                      confirmation_code_wrong_attempts_count := 2 + 1,
                      blocked_until := Some (block_now demo_rt + BlockDuration demo_client)\<rparr>)\<rparr>)"
    by simp
  from verifySignIn_last_attempt
         [OF a b, of "demo_rt\<lparr>increase_fault := Some ''connection refused''\<rparr>"
            last_attempt_db demo_id] f
  have h: "snd (verifySignIn demo_client (demo_rt\<lparr>increase_fault := Some ''connection refused''\<rparr>)
             last_attempt_db last_attempt_els demo_id ''000000'') = last_attempt_db"
    by blast
  from a b c d f g h show ?thesis
    by (simp add: demo_rt_def demo_client_def demo_id_def last_attempt_db_def)
qed

subsection \<open>The terminal marker\<close>

text \<open>
  C3, as stated, fails for Status: the record carries the terminal marker
  (\<open>confirmationCode = userID = u1\<close>) and an \<open>otp\<close> that is not the user id, and the lookup
  finds it under the presented code; Status answers with the not-verified error, in which
  \<open>errors.Is\<close> does not find \<open>ErrNoPendingLoginSession\<close>.
\<close>

theorem Status_terminal_marker_counterexample:
  "UserID consumed_els = Some ''u1''
   \<and> ConfirmationCode consumed_els = ''u1''
   \<and> tok_ConfirmationCode consumed_token = ''u1''
   \<and> getConfirmedEmailLinkSignIn consumed_client demo_db demo_id ''u1'' = Ok consumed_els
   \<and> Status consumed_client demo_rt demo_db ''session''
       = (Err (Wrapf ErrStatusNotVerified ''not verified for id:%#v''), demo_db)
   \<and> \<not> errors_Is (Wrapf ErrStatusNotVerified ''not verified for id:%#v'')
          ErrNoPendingLoginSession"
  by (simp add: Status_def consumed_client_def consumed_token_def consumed_els_def
        demo_client_def demo_els_def demo_token_def)

text \<open>
  C3, amended. For a record that carries the terminal marker, signIn and SignIn fail with
  the wrapped \<open>ErrNoPendingLoginSession\<close> whatever code is presented, and Status fails with
  \<open>ErrNoPendingLoginSession\<close> when the record's \<open>otp\<close> is the user id too and with
  \<open>ErrStatusNotVerified\<close> when it is not. None of them returns tokens or writes.
\<close>

theorem terminal_marker_rejected:
  assumes "UserID els = Some u"
    and "ConfirmationCode els = u"
  shows "signIn c rt s now els lid oldEmail notifyEmail confirmationCode =
           (Err (Wrapf ErrNoPendingLoginSession ''tokens already provided for id:%#v''), els, s)
       \<and> (parseJwtToken c loginSession (EmailValidation_JwtSecret c) = Ok token
            \<and> getEmailLinkSignInByPk c s
                 \<lparr>id_Email = Subject token, id_DeviceUniqueID = tok_DeviceUniqueID token\<rparr>
                 (OldEmail token) = Ok els
          \<longrightarrow> SignIn c rt s loginSession confirmationCode =
                (Err (Wrapf (Wrapf ErrNoPendingLoginSession
                               ''tokens already provided for id:%#v'')
                        ''can't sign in for email:%v, deviceUniqueID:%v''), s))
       \<and> (parseJwtToken c loginSession (LoginSession_JwtSecret c) = Ok token
            \<and> getConfirmedEmailLinkSignIn c s
                 \<lparr>id_Email = Subject token, id_DeviceUniqueID = tok_DeviceUniqueID token\<rparr>
                 (tok_ConfirmationCode token) = Ok els
          \<longrightarrow> Status c rt s loginSession =
                (if OTP els = u
                 then (Err (Wrapf ErrNoPendingLoginSession
                              ''tokens already provided for id:%#v''), s)
                 else (Err (Wrapf ErrStatusNotVerified ''not verified for id:%#v''), s)))"
proof (intro conjI impI)
  from assms
  show signIn: "signIn c rt s now els lid oldEmail notifyEmail confirmationCode =
           (Err (Wrapf ErrNoPendingLoginSession ''tokens already provided for id:%#v''), els, s)"
    for now lid oldEmail notifyEmail
    by (simp add: signIn_def)
  assume "parseJwtToken c loginSession (EmailValidation_JwtSecret c) = Ok token
            \<and> getEmailLinkSignInByPk c s
                 \<lparr>id_Email = Subject token, id_DeviceUniqueID = tok_DeviceUniqueID token\<rparr>
                 (OldEmail token) = Ok els"
  then show "SignIn c rt s loginSession confirmationCode =
                (Err (Wrapf (Wrapf ErrNoPendingLoginSession
                               ''tokens already provided for id:%#v'')
                        ''can't sign in for email:%v, deviceUniqueID:%v''), s)"
    by (simp add: SignIn_def signIn)
next
  assume "parseJwtToken c loginSession (LoginSession_JwtSecret c) = Ok token
            \<and> getConfirmedEmailLinkSignIn c s
                 \<lparr>id_Email = Subject token, id_DeviceUniqueID = tok_DeviceUniqueID token\<rparr>
                 (tok_ConfirmationCode token) = Ok els"
  with assms show "Status c rt s loginSession =
                (if OTP els = u
                 then (Err (Wrapf ErrNoPendingLoginSession
                              ''tokens already provided for id:%#v''), s)
                 else (Err (Wrapf ErrStatusNotVerified ''not verified for id:%#v''), s))"
    by (simp add: Status_def)
qed

theorem terminal_marker_rejected_witness:
  "UserID consumed_els = Some ''u1''
   \<and> ConfirmationCode consumed_els = ''u1''
   \<and> signIn consumed_client demo_rt demo_db 1000 consumed_els demo_id [] [] ''123456'' =
       (Err (Wrapf ErrNoPendingLoginSession ''tokens already provided for id:%#v''),
        consumed_els, demo_db)
   \<and> SignIn consumed_client demo_rt demo_db ''link'' ''123456'' =
       (Err (Wrapf (Wrapf ErrNoPendingLoginSession ''tokens already provided for id:%#v'')
               ''can't sign in for email:%v, deviceUniqueID:%v''), demo_db)
   \<and> Status consumed_client demo_rt demo_db ''session'' =
       (Err (Wrapf ErrStatusNotVerified ''not verified for id:%#v''), demo_db)"
proof -
  have a: "UserID consumed_els = Some ''u1''"
    by (simp add: consumed_els_def demo_els_def)
  have b: "ConfirmationCode consumed_els = ''u1''"
    by (simp add: consumed_els_def)
  have p1: "parseJwtToken consumed_client ''link'' (EmailValidation_JwtSecret consumed_client)
              = Ok consumed_token"
    by (simp add: consumed_client_def)
  have g1: "getEmailLinkSignInByPk consumed_client demo_db
              \<lparr>id_Email = Subject consumed_token, id_DeviceUniqueID = tok_DeviceUniqueID consumed_token\<rparr>
              (OldEmail consumed_token) = Ok consumed_els"
    by (simp add: consumed_client_def)
  have p2: "parseJwtToken consumed_client ''session'' (LoginSession_JwtSecret consumed_client)
              = Ok consumed_token"
    by (simp add: consumed_client_def)
  have g2: "getConfirmedEmailLinkSignIn consumed_client demo_db
              \<lparr>id_Email = Subject consumed_token, id_DeviceUniqueID = tok_DeviceUniqueID consumed_token\<rparr>
              (tok_ConfirmationCode consumed_token) = Ok consumed_els"
    by (simp add: consumed_client_def consumed_token_def)
  have o: "OTP consumed_els \<noteq> ''u1''"
    by (simp add: consumed_els_def demo_els_def)
  note t = terminal_marker_rejected [OF a b, of consumed_client demo_rt demo_db]
  from t [of 1000 demo_id "[]" "[]" "''123456''" "''link''" consumed_token] p1 g1
  have s1: "signIn consumed_client demo_rt demo_db 1000 consumed_els demo_id [] [] ''123456'' =
       (Err (Wrapf ErrNoPendingLoginSession ''tokens already provided for id:%#v''),
        consumed_els, demo_db)"
    and s2: "SignIn consumed_client demo_rt demo_db ''link'' ''123456'' =
       (Err (Wrapf (Wrapf ErrNoPendingLoginSession ''tokens already provided for id:%#v'')
               ''can't sign in for email:%v, deviceUniqueID:%v''), demo_db)"
    by blast+
  from t [of 1000 demo_id "[]" "[]" "''123456''" "''session''" consumed_token] p2 g2 o
  have s3: "Status consumed_client demo_rt demo_db ''session'' =
       (Err (Wrapf ErrStatusNotVerified ''not verified for id:%#v''), demo_db)"
    by simp
  from a b s1 s2 s3 show ?thesis by simp
qed

subsection \<open>Finalize failing during an email change\<close>

lemma demo_verify_ok:
  assumes "MaxWrongAttemptsCount c = 3"
  shows "verifySignIn c rt demo_db demo_els demo_id ''123456'' = (Ok (), demo_db)"
  using assms
  by (simp add: verifySignIn_def verifySignIn_compare_def demo_els_def word_sle_eq)

text \<open>
  C7, as stated, fails: the flow carries an old email, finalize fails on a storage failure
  and both reversions succeed; the multi-error that signIn returns has one cause, the wrapped
  finalize error, and no trace of the two reversions.
\<close>

theorem signIn_compensation_counterexample:
  "resetEmailModification reverting_client demo_db ''u1'' ''old@x.com'' = (Ok (), demo_db)
   \<and> resetFirebaseEmailModification reverting_client demo_db (Metadata demo_els) ''old@x.com''
       = (Ok (), demo_db)
   \<and> finishAuthProcess reverting_client (demo_rt\<lparr>finish_fault := Some ''connection refused''\<rparr>)
        demo_db 1000 demo_id ''u1'' (IssuedTokenSeq demo_els) True (Metadata demo_els)
       = (Err (Wrapf (Failure ''connection refused'')
                 ''failed to insert generated token data for:%#v''), demo_db)
   \<and> signIn reverting_client (demo_rt\<lparr>finish_fault := Some ''connection refused''\<rparr>) demo_db
        1000 demo_els demo_id ''old@x.com'' [] ''123456''
       = (Err (MultiError
                 [Wrapf (Wrapf (Failure ''connection refused'')
                           ''failed to insert generated token data for:%#v'')
                    ''can't finish auth process for userID:%v,email:%v'']),
          demo_els\<lparr>Email := id_Email demo_id\<rparr>, demo_db)
   \<and> length [Wrapf (Wrapf (Failure ''connection refused'')
                           ''failed to insert generated token data for:%#v'')
                    ''can't finish auth process for userID:%v,email:%v''] \<noteq> 3"
proof -
  have m: "MaxWrongAttemptsCount reverting_client = 3"
    by (simp add: reverting_client_def demo_client_def)
  have f: "finishAuthProcess reverting_client
             (demo_rt\<lparr>finish_fault := Some ''connection refused''\<rparr>)
             demo_db 1000 demo_id ''u1'' (IssuedTokenSeq demo_els) True (Metadata demo_els)
           = (Err (Wrapf (Failure ''connection refused'')
                     ''failed to insert generated token data for:%#v''), demo_db)"
    by (simp add: finishAuthProcess_def mdToUpdate_of_def reverting_client_def demo_client_def
          demo_els_def)
  have u: "UserID demo_els = Some ''u1''" "ConfirmationCode demo_els = ''123456''"
    "IssuedTokenSeq (demo_els\<lparr>Email := id_Email demo_id\<rparr>) = IssuedTokenSeq demo_els"
    "Metadata (demo_els\<lparr>Email := id_Email demo_id\<rparr>) = Metadata demo_els"
    by (simp_all add: demo_els_def)
  have h: "handleEmailModification reverting_client = (\<lambda>s els newEmail oldEmail notifyEmail.
             (Ok (), els, s))"
    "resetEmailModification reverting_client = (\<lambda>s userID oldEmail. (Ok (), s))"
    "resetFirebaseEmailModification reverting_client = (\<lambda>s md oldEmail. (Ok (), s))"
    by (simp_all add: reverting_client_def demo_client_def)
  have "signIn reverting_client (demo_rt\<lparr>finish_fault := Some ''connection refused''\<rparr>) demo_db
        1000 demo_els demo_id ''old@x.com'' [] ''123456''
       = (Err (MultiError
                 [Wrapf (Wrapf (Failure ''connection refused'')
                           ''failed to insert generated token data for:%#v'')
                    ''can't finish auth process for userID:%v,email:%v'']),
          demo_els\<lparr>Email := id_Email demo_id\<rparr>, demo_db)"
    by (simp add: signIn_def signIn_modify_def signIn_finish_def demo_verify_ok [OF m] u h f
          ErrorOrNil_def)
  with f h show ?thesis by simp
qed

text \<open>
  C7, amended. The flow carries an old email, verification and the email-modification step
  went through, the record has a user id, and finalize failed with \<open>fErr\<close>: signIn runs both
  reversions and (when neither panics) returns one multi-error whose causes are the wrapped
  error of the email-change reversion if that reversion failed, the wrapped error of the
  identity-provider reversion if that one failed, and, always and last, the wrapped finalize
  error. \<open>errors.Is\<close> finds in it the finalize error and the error of each reversion that
  failed; a reversion that succeeded adds no cause, so with both succeeding the finalize
  error is the only one.
\<close>

theorem signIn_aggregates_compensation:
  assumes "\<not> (UserID els \<noteq> None \<and> Some (ConfirmationCode els) = UserID els)"
    and "verifySignIn c rt s els lid confirmationCode = (Ok (), s1)"
    and "oldEmail \<noteq> []"
    and "handleEmailModification c s1 els (id_Email lid) oldEmail notifyEmail = (Ok (), els1, s2)"
    and "UserID els1 = Some userID"
    and "finishAuthProcess c rt s2 now lid userID (IssuedTokenSeq els1) True (Metadata els1)
           = (Err fErr, s3)"
    and "resetEmailModification c s3 userID oldEmail = (r1, s4)"
    and "\<forall>p. r1 \<noteq> Panic p"
    and "resetFirebaseEmailModification c s4 (Metadata els1) oldEmail = (r2, s5)"
    and "\<forall>p. r2 \<noteq> Panic p"
  shows "signIn c rt s now els lid oldEmail notifyEmail confirmationCode =
           (Err (MultiError
                   (wrapped r1 ''[reset] resetEmailModification failed for email:%v''
                    @ wrapped r2 ''[reset] resetEmailModification failed for email:%v''
                    @ [Wrapf fErr ''can't finish auth process for userID:%v,email:%v''])),
            els1\<lparr>Email := id_Email lid\<rparr>, s5)
       \<and> errors_Is (MultiError
                   (wrapped r1 ''[reset] resetEmailModification failed for email:%v''
                    @ wrapped r2 ''[reset] resetEmailModification failed for email:%v''
                    @ [Wrapf fErr ''can't finish auth process for userID:%v,email:%v''])) fErr
       \<and> (\<forall>e1. r1 = Err e1 \<longrightarrow>
             errors_Is (MultiError
                   (wrapped r1 ''[reset] resetEmailModification failed for email:%v''
                    @ wrapped r2 ''[reset] resetEmailModification failed for email:%v''
                    @ [Wrapf fErr ''can't finish auth process for userID:%v,email:%v''])) e1)
       \<and> (\<forall>e2. r2 = Err e2 \<longrightarrow>
             errors_Is (MultiError
                   (wrapped r1 ''[reset] resetEmailModification failed for email:%v''
                    @ wrapped r2 ''[reset] resetEmailModification failed for email:%v''
                    @ [Wrapf fErr ''can't finish auth process for userID:%v,email:%v''])) e2)
       \<and> (r1 = Ok () \<and> r2 = Ok () \<longrightarrow>
             signIn c rt s now els lid oldEmail notifyEmail confirmationCode =
               (Err (MultiError
                       [Wrapf fErr ''can't finish auth process for userID:%v,email:%v'']),
                els1\<lparr>Email := id_Email lid\<rparr>, s5))"
proof -
  let ?agg = "MultiError
                (wrapped r1 ''[reset] resetEmailModification failed for email:%v''
                 @ wrapped r2 ''[reset] resetEmailModification failed for email:%v''
                 @ [Wrapf fErr ''can't finish auth process for userID:%v,email:%v''])"
  have m: "signIn_modify c s1 els lid oldEmail notifyEmail =
             (Ok True, els1\<lparr>Email := id_Email lid\<rparr>, s2)"
    using assms(3,4) by (simp add: signIn_modify_def)
  have f: "signIn_finish c rt s2 now (els1\<lparr>Email := id_Email lid\<rparr>) lid oldEmail True =
             (Err ?agg, els1\<lparr>Email := id_Email lid\<rparr>, s5)"
    using assms(3,5-10)
    by (cases r1; cases r2) (simp_all add: signIn_finish_def ErrorOrNil_def Let_def)
  from assms(1,2) m f
  have eq: "signIn c rt s now els lid oldEmail notifyEmail confirmationCode =
              (Err ?agg, els1\<lparr>Email := id_Email lid\<rparr>, s5)"
    by (simp add: signIn_def)
  have fin: "errors_Is ?agg fErr"
    by (simp add: errors_Is_refl)
  have one: "\<forall>e1. r1 = Err e1 \<longrightarrow> errors_Is ?agg e1"
    by (simp add: errors_Is_refl)
  have two: "\<forall>e2. r2 = Err e2 \<longrightarrow> errors_Is ?agg e2"
    by (simp add: errors_Is_refl)
  have none: "r1 = Ok () \<and> r2 = Ok () \<longrightarrow>
                signIn c rt s now els lid oldEmail notifyEmail confirmationCode =
                  (Err (MultiError
                          [Wrapf fErr ''can't finish auth process for userID:%v,email:%v'']),
                   els1\<lparr>Email := id_Email lid\<rparr>, s5)"
    using eq by simp
  from eq fin one two none show ?thesis by blast
qed

theorem signIn_aggregates_compensation_witness:
  "signIn demo_client (demo_rt\<lparr>finish_fault := Some ''connection refused''\<rparr>) demo_db 1000
     demo_els demo_id ''old@x.com'' [] ''123456'' =
     (Err (MultiError
        [Wrapf (Failure ''revert failed'') ''[reset] resetEmailModification failed for email:%v'',
         Wrapf (Failure ''provider revert failed'')
           ''[reset] resetEmailModification failed for email:%v'',
         Wrapf (Wrapf (Failure ''connection refused'')
                  ''failed to insert generated token data for:%#v'')
           ''can't finish auth process for userID:%v,email:%v'']),
      demo_els\<lparr>Email := id_Email demo_id\<rparr>, demo_db)"
proof -
  let ?rt = "demo_rt\<lparr>finish_fault := Some ''connection refused''\<rparr>"
  have a: "\<not> (UserID demo_els \<noteq> None \<and> Some (ConfirmationCode demo_els) = UserID demo_els)"
    by (simp add: demo_els_def)
  have b: "verifySignIn demo_client ?rt demo_db demo_els demo_id ''123456'' = (Ok (), demo_db)"
    by (rule demo_verify_ok) (simp add: demo_client_def)
  have c: "''old@x.com'' \<noteq> []" by simp
  have d: "handleEmailModification demo_client demo_db demo_els (id_Email demo_id) ''old@x.com'' []
             = (Ok (), demo_els, demo_db)"
    by (simp add: demo_client_def)
  have e: "UserID demo_els = Some ''u1''" by (simp add: demo_els_def)
  have f: "finishAuthProcess demo_client ?rt demo_db 1000 demo_id ''u1'' (IssuedTokenSeq demo_els)
             True (Metadata demo_els)
           = (Err (Wrapf (Failure ''connection refused'')
                     ''failed to insert generated token data for:%#v''), demo_db)"
    by (simp add: finishAuthProcess_def mdToUpdate_of_def demo_client_def demo_els_def)
  have g: "resetEmailModification demo_client demo_db ''u1'' ''old@x.com''
             = (Err (Failure ''revert failed''), demo_db)"
    by (simp add: demo_client_def)
  have h: "\<forall>p. Err (Failure ''revert failed'') \<noteq> (Panic p :: unit result)" by simp
  have i: "resetFirebaseEmailModification demo_client demo_db (Metadata demo_els) ''old@x.com''
             = (Err (Failure ''provider revert failed''), demo_db)"
    by (simp add: demo_client_def)
  have j: "\<forall>p. Err (Failure ''provider revert failed'') \<noteq> (Panic p :: unit result)" by simp
  from signIn_aggregates_compensation [OF a b c d e f g h i j]
  show ?thesis by simp
qed

subsection \<open>A record without a user id\<close>

text \<open>
  C9. The record has no \<open>userID\<close>, verification succeeds, and the email-modification step
  (when taken) succeeds and leaves \<open>userID\<close> nil: signIn reaches the finalize call, whose
  argument \<open>*els.UserID\<close> dereferences nil, and panics; so does SignIn around it. Nothing on
  the way tests \<open>userID\<close>: the terminal-marker test of line 56 lets a nil \<open>userID\<close> pass.
\<close>

theorem signIn_nil_userID_panics:
  assumes "UserID els = None"
    and "verifySignIn c rt s els lid confirmationCode = (Ok (), s1)"
    and "signIn_modify c s1 els lid oldEmail notifyEmail = (Ok emailConfirmed, els2, s2)"
    and "UserID els2 = None"
  shows "signIn c rt s now els lid oldEmail notifyEmail confirmationCode =
           (Panic NilPointerDereference, els2, s2)
       \<and> (parseJwtToken c loginSession (EmailValidation_JwtSecret c) = Ok token
            \<and> lid = \<lparr>id_Email = Subject token, id_DeviceUniqueID = tok_DeviceUniqueID token\<rparr>
            \<and> getEmailLinkSignInByPk c s lid (OldEmail token) = Ok els
            \<and> oldEmail = OldEmail token \<and> notifyEmail = NotifyEmail token
          \<longrightarrow> SignIn c rt s loginSession confirmationCode = (Panic NilPointerDereference, s2))"
proof (intro conjI impI)
  from assms
  show signIn: "signIn c rt s now els lid oldEmail notifyEmail confirmationCode =
           (Panic NilPointerDereference, els2, s2)" for now
    by (simp add: signIn_def signIn_finish_def Let_def)
  assume "parseJwtToken c loginSession (EmailValidation_JwtSecret c) = Ok token
            \<and> lid = \<lparr>id_Email = Subject token, id_DeviceUniqueID = tok_DeviceUniqueID token\<rparr>
            \<and> getEmailLinkSignInByPk c s lid (OldEmail token) = Ok els
            \<and> oldEmail = OldEmail token \<and> notifyEmail = NotifyEmail token"
  then show "SignIn c rt s loginSession confirmationCode = (Panic NilPointerDereference, s2)"
    using signIn [of "signin_now rt"] by (auto simp: SignIn_def)
qed

theorem signIn_nil_userID_panics_witness:
  "UserID no_user_els = None
   \<and> ConfirmationCode no_user_els = ''123456''
   \<and> verifySignIn no_user_client demo_rt demo_db no_user_els demo_id ''123456'' = (Ok (), demo_db)
   \<and> signIn no_user_client demo_rt demo_db 1000 no_user_els demo_id [] [] ''123456'' =
       (Panic NilPointerDereference, no_user_els, demo_db)
   \<and> SignIn no_user_client demo_rt demo_db ''link'' ''123456'' =
       (Panic NilPointerDereference, demo_db)"
proof -
  have a: "UserID no_user_els = None" by (simp add: no_user_els_def)
  have k: "ConfirmationCode no_user_els = ''123456''"
    by (simp add: no_user_els_def demo_els_def)
  have b: "verifySignIn no_user_client demo_rt demo_db no_user_els demo_id ''123456''
             = (Ok (), demo_db)"
    by (simp add: verifySignIn_def verifySignIn_compare_def no_user_client_def demo_client_def
          no_user_els_def demo_els_def word_sle_eq)
  have c: "signIn_modify no_user_client demo_db no_user_els demo_id [] []
             = (Ok False, no_user_els, demo_db)"
    by (simp add: signIn_modify_def no_user_els_def demo_els_def)
  have p: "parseJwtToken no_user_client ''link'' (EmailValidation_JwtSecret no_user_client)
             = Ok demo_token"
    by (simp add: no_user_client_def demo_client_def)
  have l: "demo_id = \<lparr>id_Email = Subject demo_token,
                       id_DeviceUniqueID = tok_DeviceUniqueID demo_token\<rparr>"
    by (simp add: demo_id_def demo_token_def)
  have g: "getEmailLinkSignInByPk no_user_client demo_db demo_id (OldEmail demo_token)
             = Ok no_user_els"
    by (simp add: no_user_client_def)
  have o: "[] = OldEmail demo_token" "[] = NotifyEmail demo_token"
    by (simp_all add: demo_token_def)
  from signIn_nil_userID_panics [OF a b c a, of 1000 "''link''" demo_token] p l g o a k b
  show ?thesis by simp
qed

subsection \<open>Rate Limiter\<close>

lemma sint_pred: "sint (a::int64) \<noteq> MinInt64 \<Longrightarrow> sint (a - 1) = sint a - 1"
proof -
  assume h: "sint a \<noteq> MinInt64"
  have lo: "- (2 ^ 63) \<le> sint a" using sint_ge [of a] by simp
  have hi: "sint a < 2 ^ 63" using sint_lt [of a] by simp
  from h lo have "- (2 ^ 63) \<le> sint a - 1" by (simp add: MinInt64_def)
  with hi show ?thesis
    by (simp add: sint_word_ariths signed_take_bit_int_eq_self)
qed

lemma sint_GREATEST_pred:
  assumes "0 \<le> sint (a::int64)" and "sint a \<le> 10"
  shows "0 \<le> sint (sql_GREATEST (a - 1) 0)" and "sint (sql_GREATEST (a - 1) 0) \<le> 10"
proof -
  from assms have "sint a \<noteq> MinInt64" by (simp add: MinInt64_def)
  then have "sint (a - 1) = sint a - 1" by (rule sint_pred)
  with assms show "0 \<le> sint (sql_GREATEST (a - 1) 0)" and "sint (sql_GREATEST (a - 1) 0) \<le> 10"
    by (simp_all add: sql_GREATEST_def word_sless_alt)
qed

lemma decrement_in_range:
  assumes "attempts_in_range s" and "decrement_ip_login_attempts s ip n = Some s1"
  shows "attempts_in_range s1"
proof (cases "sign_ins_per_ip s (n, ip)")
  case None
  with assms show ?thesis by (simp add: decrement_ip_login_attempts_def)
next
  case (Some a)
  with assms(1) have a: "0 \<le> sint a" "sint a \<le> 10"
    by (auto simp: attempts_in_range_def)
  from assms(2) Some
  have "sign_ins_per_ip s1 = (sign_ins_per_ip s)((n, ip) \<mapsto> sql_GREATEST (a - 1) 0)"
    by (auto simp: decrement_ip_login_attempts_def split: if_splits)
  with assms(1) sint_GREATEST_pred [OF a] show ?thesis
    by (auto simp: attempts_in_range_def)
qed

lemma resetLoginSession_counters:
  "sign_ins_per_ip (snd (resetLoginSession c rt s lid els code ip n)) = sign_ins_per_ip s
   \<or> (\<exists>s1. decrement_ip_login_attempts s ip n = Some s1
          \<and> sign_ins_per_ip (snd (resetLoginSession c rt s lid els code ip n))
              = sign_ins_per_ip s1)"
  by (auto simp: resetLoginSession_def Let_def split: option.splits)

lemma refund_in_range:
  assumes "attempts_in_range s"
  shows "attempts_in_range (snd (resetLoginSession c rt s lid els code ip n))"
proof -
  from resetLoginSession_counters [of c rt s lid els code ip n]
  show ?thesis
  proof
    assume "sign_ins_per_ip (snd (resetLoginSession c rt s lid els code ip n))
              = sign_ins_per_ip s"
    with assms show ?thesis by (simp add: attempts_in_range_def)
  next
    assume "\<exists>s1. decrement_ip_login_attempts s ip n = Some s1
              \<and> sign_ins_per_ip (snd (resetLoginSession c rt s lid els code ip n))
                  = sign_ins_per_ip s1"
    then obtain s1 where d: "decrement_ip_login_attempts s ip n = Some s1"
      and e: "sign_ins_per_ip (snd (resetLoginSession c rt s lid els code ip n))
                = sign_ins_per_ip s1"
      by blast
    from decrement_in_range [OF assms d] e show ?thesis
      by (simp add: attempts_in_range_def)
  qed
qed

lemma admit_in_range:
  assumes "attempts_in_range s"
  shows "attempts_in_range (snd (admit s ip n))"
proof -
  define a where "a = (case sign_ins_per_ip s (n, ip) of None \<Rightarrow> 0 | Some a \<Rightarrow> a)"
  from assms have a0: "0 \<le> sint a"
    by (auto simp: a_def attempts_in_range_def split: option.splits)
  show ?thesis
  proof (cases "sint a = MaxInt64 \<or> 10 <s a + 1")
    case True
    with assms show ?thesis by (simp add: admit_def a_def [symmetric])
  next
    case False
    then have "sint (a + 1) = sint a + 1" by (simp add: sint_succ)
    with False a0 have "0 \<le> sint (a + 1)" "sint (a + 1) \<le> 10"
      by (simp_all add: word_sless_alt)
    moreover from False
    have "sign_ins_per_ip (snd (admit s ip n)) = (sign_ins_per_ip s)((n, ip) \<mapsto> a + 1)"
      by (simp add: admit_def a_def [symmetric])
    ultimately show ?thesis using assms
      by (auto simp: attempts_in_range_def)
  qed
qed

lemma apply_ip_op_in_range: "attempts_in_range s \<Longrightarrow> attempts_in_range (apply_ip_op c s x)"
  by (cases x) (simp_all add: admit_in_range refund_in_range)

text \<open>
  C6. From a table whose counters all lie within 0..10 (the empty table is one), any sequence
  of admits and refunds leaves every \<open>login_attempts\<close> within 0..10.
\<close>

theorem login_attempts_in_range:
  assumes "attempts_in_range s"
  shows "attempts_in_range (foldl (apply_ip_op c) s ops)"
  using assms by (induction ops arbitrary: s) (simp_all add: apply_ip_op_in_range)

theorem login_attempts_in_range_witness:
  "attempts_in_range demo_db
   \<and> sign_ins_per_ip
        (foldl (apply_ip_op demo_client) demo_db
           [Admit ''10.0.0.1'' 1, Refund demo_rt demo_id demo_els ''123456'' ''10.0.0.1'' 1,
            Refund demo_rt demo_id demo_els ''123456'' ''10.0.0.1'' 1, Admit ''10.0.0.1'' 1])
        (1, ''10.0.0.1'') = Some 1
   \<and> attempts_in_range
        (foldl (apply_ip_op demo_client) demo_db
           [Admit ''10.0.0.1'' 1, Refund demo_rt demo_id demo_els ''123456'' ''10.0.0.1'' 1,
            Refund demo_rt demo_id demo_els ''123456'' ''10.0.0.1'' 1, Admit ''10.0.0.1'' 1])"
proof -
  have a: "attempts_in_range demo_db"
    by (simp add: attempts_in_range_def demo_db_def)
  have b: "sign_ins_per_ip
        (foldl (apply_ip_op demo_client) demo_db
           [Admit ''10.0.0.1'' 1, Refund demo_rt demo_id demo_els ''123456'' ''10.0.0.1'' 1,
            Refund demo_rt demo_id demo_els ''123456'' ''10.0.0.1'' 1, Admit ''10.0.0.1'' 1])
        (1, ''10.0.0.1'') = Some 1"
    by (simp add: admit_def resetLoginSession_def decrement_ip_login_attempts_def
          sql_GREATEST_def demo_db_def demo_rt_def demo_id_def demo_els_def demo_row_def
          MaxInt64_def MinInt64_def word_sless_alt)
  from a b login_attempts_in_range [OF a, of demo_client
         "[Admit ''10.0.0.1'' 1, Refund demo_rt demo_id demo_els ''123456'' ''10.0.0.1'' 1,
           Refund demo_rt demo_id demo_els ''123456'' ''10.0.0.1'' 1, Admit ''10.0.0.1'' 1]"]
  show ?thesis by blast
qed

subsection \<open>A block that never lifts\<close>

text \<open>What each of these operations does to the sign-in table.\<close>

lemma increase_rows:
  "email_link_sign_ins (snd (increaseWrongConfirmationCodeAttemptsCount c rt s lid b)) k =
     email_link_sign_ins s k
   \<or> (\<exists>r. k = (id_Email lid, id_DeviceUniqueID lid)
          \<and> email_link_sign_ins s k = Some r
          \<and> sint (confirmation_code_wrong_attempts_count r) \<noteq> MaxInt64
          \<and> email_link_sign_ins (snd (increaseWrongConfirmationCodeAttemptsCount c rt s lid b)) k
              = Some (r\<lparr>confirmation_code_wrong_attempts_count :=
                            confirmation_code_wrong_attempts_count r + 1,
                         blocked_until := (if b then Some (block_now rt + BlockDuration c)
                                           else blocked_until r)\<rparr>))"
  by (auto simp: increaseWrongConfirmationCodeAttemptsCount_def Let_def split: option.splits)

lemma verifySignIn_compare_db:
  "snd (verifySignIn_compare c rt s els lid code sb mErr) = s
   \<or> snd (verifySignIn_compare c rt s els lid code sb mErr)
       = snd (increaseWrongConfirmationCodeAttemptsCount c rt s lid
               (if MaxWrongAttemptsCount c \<le>s ConfirmationCodeWrongAttemptsCount els + 1
                then True else sb))"
  by (auto simp: verifySignIn_compare_def Let_def split: prod.splits result.splits)

lemma verifySignIn_db:
  "snd (verifySignIn c rt s els lid code) = s
   \<or> (\<exists>b. snd (verifySignIn c rt s els lid code)
            = snd (increaseWrongConfirmationCodeAttemptsCount c rt s lid b))"
proof (cases "MaxWrongAttemptsCount c \<le>s ConfirmationCodeWrongAttemptsCount els")
  case False
  then have "verifySignIn c rt s els lid code = verifySignIn_compare c rt s els lid code False []"
    by (simp add: verifySignIn_def)
  with verifySignIn_compare_db [of c rt s els lid code False "[]"] show ?thesis
    by metis
next
  case True
  let ?exceeded = "Wrapf ErrConfirmationCodeAttemptsExceeded
                     ''confirmation code wrong attempts count exceeded for id:%#v''"
  from True
  have "snd (verifySignIn c rt s els lid code) = s
        \<or> verifySignIn c rt s els lid code
            = verifySignIn_compare c rt s els lid code True [?exceeded]"
    by (auto simp: verifySignIn_def Let_def split: result.splits)
  with verifySignIn_compare_db [of c rt s els lid code True "[?exceeded]"] show ?thesis
    by metis
qed

lemma finish_rows:
  "email_link_sign_ins (snd (finishAuthProcess c rt s now lid userID seq ec md)) k =
     email_link_sign_ins s k
   \<or> (\<exists>r. email_link_sign_ins s k = Some r
          \<and> email_link_sign_ins (snd (finishAuthProcess c rt s now lid userID seq ec md)) k
              = Some (r\<lparr>token_issued_at := Some now,
                         user_id := Some userID,
                         email_confirmed_at := (if ec then Some now else None),
                         phone_number_to_email_migration_user_id := None,
                         issued_token_seq := issued_token_seq r + 1,
                         previously_issued_token_seq := issued_token_seq r + 1\<rparr>))"
  by (auto simp: finishAuthProcess_def Let_def split: result.splits option.splits)

lemma reset_rows:
  "email_link_sign_ins (snd (resetLoginSession c rt s lid els code ip n)) k =
     email_link_sign_ins s k
   \<or> (\<exists>r. email_link_sign_ins s k = Some r
          \<and> email_link_sign_ins (snd (resetLoginSession c rt s lid els code ip n)) k
              = Some (r\<lparr>confirmation_code := UserID els\<rparr>))"
  by (auto simp: resetLoginSession_def decrement_ip_login_attempts_def Let_def
        split: option.splits if_splits)

lemma reset_status_rows:
  "email_link_sign_ins (snd (resetLoginSession_status c rt s lid els code)) k =
     email_link_sign_ins s k
   \<or> (\<exists>r. email_link_sign_ins s k = Some r
          \<and> email_link_sign_ins (snd (resetLoginSession_status c rt s lid els code)) k
              = Some (r\<lparr>confirmation_code := UserID els\<rparr>))"
  by (auto simp: resetLoginSession_status_def Let_def split: option.splits)

text \<open>None of them removes a row or lowers its wrong-attempt counter.\<close>

lemma apply_op_counter_mono:
  assumes "email_link_sign_ins s k = Some r"
  shows "\<exists>r'. email_link_sign_ins (apply_op c s x) k = Some r'
             \<and> sint (confirmation_code_wrong_attempts_count r)
                 \<le> sint (confirmation_code_wrong_attempts_count r')"
proof (cases x)
  case (OpVerify rt els lid code)
  from verifySignIn_db [of c rt s els lid code] show ?thesis
  proof
    assume "snd (verifySignIn c rt s els lid code) = s"
    with assms OpVerify show ?thesis by simp
  next
    assume "\<exists>b. snd (verifySignIn c rt s els lid code)
                  = snd (increaseWrongConfirmationCodeAttemptsCount c rt s lid b)"
    then obtain b where b: "snd (verifySignIn c rt s els lid code)
                  = snd (increaseWrongConfirmationCodeAttemptsCount c rt s lid b)" ..
    from increase_rows [of c rt s lid b k] assms b OpVerify show ?thesis
      by (auto simp: sint_succ)
  qed
next
  case (OpFinish rt now lid userID seq ec md)
  with finish_rows [of c rt s now lid userID seq ec md k] assms show ?thesis by auto
next
  case (OpReset rt lid els code ip n)
  with reset_rows [of c rt s lid els code ip n k] assms show ?thesis by auto
next
  case (OpResetStatus rt lid els code)
  with reset_status_rows [of c rt s lid els code k] assms show ?thesis by auto
qed

text \<open>A later clock reading keeps the block test true.\<close>

lemma block_covers_verify:
  assumes "block_covers c t r" and "reads_row els r" and "t \<le> verify_now rt"
  shows "verifySignIn c rt s els lid code =
           (Err (Wrapf ErrConfirmationCodeAttemptsExceeded
                  ''confirmation code wrong attempts count exceeded for id:%#v''), s)"
proof -
  from assms(1) obtain bu where bu: "blocked_until r = Some bu"
    and w: "created_at r < bu" "bu < t + BlockDuration c"
    and n: "MaxWrongAttemptsCount c \<le>s confirmation_code_wrong_attempts_count r"
    by (auto simp: block_covers_def split: option.splits)
  from w assms(3) have "bu < verify_now rt + BlockDuration c" by simp
  with bu w n assms(2) show ?thesis
    by (simp add: verifySignIn_def blockTimeFitsNow_def reads_row_def)
qed

text \<open>An admissible operation leaves the three fields of a covered row alone.\<close>

lemma apply_op_keeps_block:
  assumes "email_link_sign_ins s k = Some r" and "block_covers c t r"
    and "op_admissible t s x"
  shows "\<exists>r'. email_link_sign_ins (apply_op c s x) k = Some r'
             \<and> confirmation_code_wrong_attempts_count r' = confirmation_code_wrong_attempts_count r
             \<and> blocked_until r' = blocked_until r
             \<and> created_at r' = created_at r"
proof (cases x)
  case (OpVerify rt els lid code)
  show ?thesis
  proof (cases "k = (id_Email lid, id_DeviceUniqueID lid)")
    case True
    with assms OpVerify have "reads_row els r" "t \<le> verify_now rt" by simp_all
    from block_covers_verify [OF assms(2) this] assms(1) OpVerify show ?thesis by simp
  next
    case False
    from verifySignIn_db [of c rt s els lid code] show ?thesis
    proof
      assume "snd (verifySignIn c rt s els lid code) = s"
      with assms OpVerify show ?thesis by simp
    next
      assume "\<exists>b. snd (verifySignIn c rt s els lid code)
                    = snd (increaseWrongConfirmationCodeAttemptsCount c rt s lid b)"
      then obtain b where b: "snd (verifySignIn c rt s els lid code)
                    = snd (increaseWrongConfirmationCodeAttemptsCount c rt s lid b)" ..
      from increase_rows [of c rt s lid b k] False assms(1) b OpVerify show ?thesis
        by auto
    qed
  qed
next
  case (OpFinish rt now lid userID seq ec md)
  with finish_rows [of c rt s now lid userID seq ec md k] assms(1) show ?thesis by auto
next
  case (OpReset rt lid els code ip n)
  with reset_rows [of c rt s lid els code ip n k] assms(1) show ?thesis by auto
next
  case (OpResetStatus rt lid els code)
  with reset_status_rows [of c rt s lid els code k] assms(1) show ?thesis by auto
qed

lemma block_covers_cong:
  assumes "block_covers c t r"
    and "confirmation_code_wrong_attempts_count r' = confirmation_code_wrong_attempts_count r"
    and "blocked_until r' = blocked_until r"
    and "created_at r' = created_at r"
  shows "block_covers c t r'"
  using assms by (auto simp: block_covers_def split: option.splits)

lemma run_keeps_block:
  assumes "email_link_sign_ins s k = Some r" and "block_covers c t r"
    and "admissible c t s ops"
  shows "\<exists>r'. email_link_sign_ins (foldl (apply_op c) s ops) k = Some r'
             \<and> confirmation_code_wrong_attempts_count r' = confirmation_code_wrong_attempts_count r
             \<and> blocked_until r' = blocked_until r
             \<and> created_at r' = created_at r"
  using assms
proof (induction ops arbitrary: s r)
  case Nil
  then show ?case by simp
next
  case (Cons x xs)
  from Cons.prems have adm: "op_admissible t s x" "admissible c t (apply_op c s x) xs"
    by simp_all
  from apply_op_keeps_block [OF Cons.prems(1,2) adm(1)]
  obtain r1 where r1: "email_link_sign_ins (apply_op c s x) k = Some r1"
    and same: "confirmation_code_wrong_attempts_count r1 = confirmation_code_wrong_attempts_count r"
      "blocked_until r1 = blocked_until r" "created_at r1 = created_at r"
    by blast
  from block_covers_cong [OF Cons.prems(2) same] have "block_covers c t r1" .
  from Cons.IH [OF r1 this adm(2)] same show ?case by auto
qed

text \<open>
  C10. A row over budget whose \<open>blockedUntil\<close> lies strictly between \<open>createdAt\<close> and
  \<open>t + blockDuration\<close> at some time \<open>t\<close>. After any run of the writing operations whose
  verifications read the row afresh at clock readings not before \<open>t\<close>, the row is still
  there with the same counter, block end and creation time, and a verification of a struct
  read from it, at any reading not before \<open>t\<close> and for any code, returns the attempts-exceeded
  error alone and writes nothing; \<open>blockedUntil\<close> need not lie in the future for that. And
  none of the operations, on any state, lowers the wrong-attempt counter of a row.
\<close>

theorem block_never_expires:
  assumes "email_link_sign_ins s k = Some r"
    and "block_covers c t r"
    and "admissible c t s ops"
  shows "(\<exists>r'. email_link_sign_ins (foldl (apply_op c) s ops) k = Some r'
            \<and> confirmation_code_wrong_attempts_count r' = confirmation_code_wrong_attempts_count r
            \<and> blocked_until r' = blocked_until r
            \<and> created_at r' = created_at r
            \<and> (\<forall>rt els lid code. t \<le> verify_now rt \<and> reads_row els r' \<longrightarrow>
                  verifySignIn c rt (foldl (apply_op c) s ops) els lid code =
                    (Err (Wrapf ErrConfirmationCodeAttemptsExceeded
                            ''confirmation code wrong attempts count exceeded for id:%#v''),
                     foldl (apply_op c) s ops)))
       \<and> (\<forall>x s0 k0 r0. email_link_sign_ins s0 k0 = Some r0 \<longrightarrow>
             (\<exists>r1. email_link_sign_ins (apply_op c s0 x) k0 = Some r1
                  \<and> sint (confirmation_code_wrong_attempts_count r0)
                      \<le> sint (confirmation_code_wrong_attempts_count r1)))"
proof (intro conjI allI impI)
  from run_keeps_block [OF assms]
  obtain r' where r': "email_link_sign_ins (foldl (apply_op c) s ops) k = Some r'"
    and same: "confirmation_code_wrong_attempts_count r' = confirmation_code_wrong_attempts_count r"
      "blocked_until r' = blocked_until r" "created_at r' = created_at r"
    by blast
  from block_covers_cong [OF assms(2) same] have cov: "block_covers c t r'" .
  have "\<forall>rt els lid code. t \<le> verify_now rt \<and> reads_row els r' \<longrightarrow>
          verifySignIn c rt (foldl (apply_op c) s ops) els lid code =
            (Err (Wrapf ErrConfirmationCodeAttemptsExceeded
                    ''confirmation code wrong attempts count exceeded for id:%#v''),
             foldl (apply_op c) s ops)"
    using block_covers_verify [OF cov] by blast
  with r' same
  show "\<exists>r'. email_link_sign_ins (foldl (apply_op c) s ops) k = Some r'
            \<and> confirmation_code_wrong_attempts_count r' = confirmation_code_wrong_attempts_count r
            \<and> blocked_until r' = blocked_until r
            \<and> created_at r' = created_at r
            \<and> (\<forall>rt els lid code. t \<le> verify_now rt \<and> reads_row els r' \<longrightarrow>
                  verifySignIn c rt (foldl (apply_op c) s ops) els lid code =
                    (Err (Wrapf ErrConfirmationCodeAttemptsExceeded
                            ''confirmation code wrong attempts count exceeded for id:%#v''),
                     foldl (apply_op c) s ops))"
    by blast
next
  fix x and s0 :: db and k0 r0
  assume "email_link_sign_ins s0 k0 = Some r0"
  then show "\<exists>r1. email_link_sign_ins (apply_op c s0 x) k0 = Some r1
                  \<and> sint (confirmation_code_wrong_attempts_count r0)
                      \<le> sint (confirmation_code_wrong_attempts_count r1)"
    by (rule apply_op_counter_mono)
qed

theorem block_never_expires_witness:
  "email_link_sign_ins blocked_db (''alice@x.com'', ''D1'') = Some blocked_row
   \<and> block_covers demo_client 1000 blocked_row
   \<and> blocked_until blocked_row = Some 50 \<and> (50::int) < verify_now demo_rt
   \<and> ConfirmationCode blocked_els = ''123456''
   \<and> admissible demo_client 1000 blocked_db
        [OpVerify demo_rt blocked_els demo_id ''123456'',
         OpFinish demo_rt 1000 demo_id ''u1'' 5 False None,
         OpReset demo_rt demo_id demo_els ''123456'' [] 0]
   \<and> verifySignIn demo_client demo_rt
        (foldl (apply_op demo_client) blocked_db
           [OpVerify demo_rt blocked_els demo_id ''123456'',
            OpFinish demo_rt 1000 demo_id ''u1'' 5 False None,
            OpReset demo_rt demo_id demo_els ''123456'' [] 0])
        blocked_els demo_id ''123456''
      = (Err (Wrapf ErrConfirmationCodeAttemptsExceeded
                ''confirmation code wrong attempts count exceeded for id:%#v''),
         foldl (apply_op demo_client) blocked_db
           [OpVerify demo_rt blocked_els demo_id ''123456'',
            OpFinish demo_rt 1000 demo_id ''u1'' 5 False None,
            OpReset demo_rt demo_id demo_els ''123456'' [] 0])"
proof -
  let ?ops = "[OpVerify demo_rt blocked_els demo_id ''123456'',
               OpFinish demo_rt 1000 demo_id ''u1'' 5 False None,
               OpReset demo_rt demo_id demo_els ''123456'' [] 0]"
  have a: "email_link_sign_ins blocked_db (''alice@x.com'', ''D1'') = Some blocked_row"
    by (simp add: blocked_db_def)
  have b: "block_covers demo_client 1000 blocked_row"
    by (simp add: block_covers_def blocked_row_def demo_row_def demo_client_def)
  have rd: "reads_row blocked_els blocked_row"
    by (simp add: reads_row_def blocked_els_def blocked_row_def demo_els_def demo_row_def)
  have v: "verifySignIn demo_client demo_rt blocked_db blocked_els demo_id ''123456''
             = (Err (Wrapf ErrConfirmationCodeAttemptsExceeded
                       ''confirmation code wrong attempts count exceeded for id:%#v''),
                blocked_db)"
    by (rule block_covers_verify [OF b rd]) (simp add: demo_rt_def)
  have c: "admissible demo_client 1000 blocked_db ?ops"
    using rd by (simp add: v a demo_rt_def demo_id_def)
  have d: "blocked_until blocked_row = Some 50" "(50::int) < verify_now demo_rt"
    "ConfirmationCode blocked_els = ''123456''" "(1000::int) \<le> verify_now demo_rt"
    by (simp_all add: blocked_row_def blocked_els_def demo_els_def demo_rt_def)
  from block_never_expires [OF a b c]
  obtain r' where same:
      "confirmation_code_wrong_attempts_count r' = confirmation_code_wrong_attempts_count blocked_row"
      "blocked_until r' = blocked_until blocked_row" "created_at r' = created_at blocked_row"
    and all: "\<forall>rt els lid code. 1000 \<le> verify_now rt \<and> reads_row els r' \<longrightarrow>
                verifySignIn demo_client rt (foldl (apply_op demo_client) blocked_db ?ops)
                  els lid code =
                  (Err (Wrapf ErrConfirmationCodeAttemptsExceeded
                          ''confirmation code wrong attempts count exceeded for id:%#v''),
                   foldl (apply_op demo_client) blocked_db ?ops)"
    by blast
  from rd same have "reads_row blocked_els r'" by (simp add: reads_row_def)
  with all d(4)
  have "verifySignIn demo_client demo_rt (foldl (apply_op demo_client) blocked_db ?ops)
          blocked_els demo_id ''123456'' =
          (Err (Wrapf ErrConfirmationCodeAttemptsExceeded
                  ''confirmation code wrong attempts count exceeded for id:%#v''),
           foldl (apply_op demo_client) blocked_db ?ops)"
    by blast
  with a b c d(1-3) show ?thesis by blast
qed

end
